theory Spec2Isabelle
  imports Complex_Main "HOL-Library.Word"
begin

section \<open>JavaScript strings\<close>

text \<open>
  A JavaScript string is a sequence of UTF-16 code units; \<open>length\<close> counts code units.
  \<open>js\<close> writes an ASCII literal as such a sequence.
\<close>

type_synonym jsstring = "16 word list"

definition js :: "string \<Rightarrow> jsstring" where
  "js s = map (\<lambda>c. word_of_nat (of_char c)) s"

text \<open>
  \<open>String.prototype.trim\<close> removes WhiteSpace and LineTerminator code units from both ends:
  TAB, LF, VT, FF, CR, SP, NBSP, U+1680, U+2000..U+200A, U+2028, U+2029, U+202F, U+205F,
  U+3000 and U+FEFF.
\<close>

definition is_white_space :: "16 word \<Rightarrow> bool" where
  "is_white_space c \<longleftrightarrow>
     (0x09 \<le> c \<and> c \<le> 0x0D) \<or> c = 0x20 \<or> c = 0xA0 \<or> c = 0x1680 \<or>
     (0x2000 \<le> c \<and> c \<le> 0x200A) \<or> c = 0x2028 \<or> c = 0x2029 \<or> c = 0x202F \<or>
     c = 0x205F \<or> c = 0x3000 \<or> c = 0xFEFF"

definition trim :: "jsstring \<Rightarrow> jsstring" where
  "trim s = rev (dropWhile is_white_space (rev (dropWhile is_white_space s)))"

section \<open>Instruction processor (the component InstructionProcessor)\<close>

record Instruction =
  inst_id :: nat
  inst_text :: jsstring
  inst_completed :: bool
  inst_current :: bool

text \<open>\<open>\d\<close> without the unicode flag: the ASCII digits.\<close>

definition is_digit :: "16 word \<Rightarrow> bool" where
  "is_digit c \<longleftrightarrow> 0x30 \<le> c \<and> c \<le> 0x39"

text \<open>
  The separator \<open>/\n|\.|\d+\./\<close> tried at the head of a string: the length of the match of the
  first alternative that matches, in the order written. \<open>\d+\<close> is greedy, and giving back
  digits cannot help, since the code unit after fewer digits is a digit and not a period.
\<close>

definition separator_match :: "jsstring \<Rightarrow> nat option" where
  "separator_match s =
     (case s of
        [] \<Rightarrow> None
      | c # cs \<Rightarrow>
          if c = 0x0A then Some 1
          else if c = 0x2E then Some 1
          else if is_digit c then
            (case dropWhile is_digit s of
               [] \<Rightarrow> None
             | d # ds \<Rightarrow> if d = 0x2E then Some (length (takeWhile is_digit s) + 1) else None)
          else None)"

text \<open>
  \<open>String.prototype.split\<close> with that separator and no limit: scan from the left; where the
  separator matches, the text since the last match is a fragment and the scan goes on after the
  match; the text after the last match is the final fragment. \<open>acc\<close> holds the current
  fragment, reversed. No match is empty, so the empty string gives the one fragment \<open>""\<close>.
\<close>

function split_from :: "jsstring \<Rightarrow> jsstring \<Rightarrow> jsstring list" where
  "split_from acc [] = [rev acc]"
| "split_from acc (c # cs) =
     (case separator_match (c # cs) of
        Some n \<Rightarrow> rev acc # split_from [] (drop n (c # cs))
      | None \<Rightarrow> split_from (c # acc) cs)"
  by pat_completeness auto
termination
  by (relation "measure (\<lambda>(acc, s). length s)")
    (auto simp: separator_match_def split: list.splits if_splits)

definition split :: "jsstring \<Rightarrow> jsstring list" where
  "split s = split_from [] s"

text \<open>
  Lines 31 to 40 of the component: split, keep the fragments whose trimmed length exceeds 10,
  number them from 1, mark index 0 as current, keep the first 8.
\<close>

definition processInstructions :: "jsstring \<Rightarrow> Instruction list" where
  "processInstructions rawInstructions =
     take 8
       (map (\<lambda>(index, step).
               \<lparr>inst_id = index + 1, inst_text = trim step,
                inst_completed = False, inst_current = (index = 0)\<rparr>)
          (enumerate 0 (filter (\<lambda>step. length (trim step) > 10) (split rawInstructions))))"


section \<open>JavaScript numbers and JSON values\<close>

text \<open>
  A number is NaN, an infinity or a finite value. Finite values are modelled as reals: rounding
  to binary64 and the sign of zero are left out; \<open>Math.min\<close>, \<open>Math.max\<close> and the
  comparisons below never round.
\<close>

datatype jsnum = NaN | NegInf | Fin real | PosInf

fun num_le :: "jsnum \<Rightarrow> jsnum \<Rightarrow> bool" where
  "num_le NaN _ = False"
| "num_le _ NaN = False"
| "num_le NegInf _ = True"
| "num_le _ PosInf = True"
| "num_le (Fin a) (Fin b) = (a \<le> b)"
| "num_le _ _ = False"

text \<open>\<open>Math.min\<close> and \<open>Math.max\<close> of two numbers: NaN if either is NaN.\<close>

definition Math_min :: "jsnum \<Rightarrow> jsnum \<Rightarrow> jsnum" where
  "Math_min a b = (if a = NaN \<or> b = NaN then NaN else if num_le a b then a else b)"

definition Math_max :: "jsnum \<Rightarrow> jsnum \<Rightarrow> jsnum" where
  "Math_max a b = (if a = NaN \<or> b = NaN then NaN else if num_le a b then b else a)"

definition in_range :: "real \<Rightarrow> real \<Rightarrow> jsnum \<Rightarrow> bool" where
  "in_range lo hi n \<longleftrightarrow> num_le (Fin lo) n \<and> num_le n (Fin hi)"

text \<open>
  What \<open>JSON.parse\<close> returns, and \<open>undefined\<close> for an absent property. An object keeps its
  members in source order; a repeated key takes its last value.
\<close>

datatype jsval =
    JUndefined
  | JNull
  | JBool bool
  | JNum jsnum
  | JStr jsstring
  | JArr "jsval list"
  | JObj "(jsstring \<times> jsval) list"

datatype exn = Error jsstring | TypeError | SyntaxError | ReferenceError

text \<open>Sequencing of steps that may throw: the first exception ends the evaluation.\<close>

definition and_then :: "exn + 'a \<Rightarrow> ('a \<Rightarrow> exn + 'b) \<Rightarrow> exn + 'b" where
  "and_then r f = (case r of Inl e \<Rightarrow> Inl e | Inr v \<Rightarrow> f v)"

fun truthy :: "jsval \<Rightarrow> bool" where
  "truthy JUndefined = False"
| "truthy JNull = False"
| "truthy (JBool b) = b"
| "truthy (JNum n) = (n \<noteq> NaN \<and> n \<noteq> Fin 0)"
| "truthy (JStr s) = (s \<noteq> [])"
| "truthy (JArr _) = True"
| "truthy (JObj _) = True"

text \<open>The operator \<open>||\<close>.\<close>

definition or_else :: "jsval \<Rightarrow> jsval \<Rightarrow> jsval" where
  "or_else a b = (if truthy a then a else b)"

text \<open>
  Reading a property by name, for the names read in this program (none of them is defined by a
  built-in prototype): a TypeError on \<open>null\<close> and \<open>undefined\<close>, the member of an object,
  \<open>undefined\<close> otherwise.
\<close>

fun get_prop :: "jsval \<Rightarrow> jsstring \<Rightarrow> exn + jsval" where
  "get_prop JUndefined k = Inl TypeError"
| "get_prop JNull k = Inl TypeError"
| "get_prop (JObj members) k =
     (case map_of (rev members) k of Some v \<Rightarrow> Inr v | None \<Rightarrow> Inr JUndefined)"
| "get_prop _ k = Inr JUndefined"

subsection \<open>Conversion to a number\<close>

definition digits_value :: "nat \<Rightarrow> jsstring \<Rightarrow> nat" where
  "digits_value base ds =
     foldl (\<lambda>a c. base * a +
              (if 0x30 \<le> c \<and> c \<le> 0x39 then unat c - 0x30
               else if 0x61 \<le> c \<and> c \<le> 0x66 then unat c - 0x61 + 10
               else unat c - 0x41 + 10)) 0 ds"

definition is_hex_digit :: "16 word \<Rightarrow> bool" where
  "is_hex_digit c \<longleftrightarrow> is_digit c \<or> (0x61 \<le> c \<and> c \<le> 0x66) \<or> (0x41 \<le> c \<and> c \<le> 0x46)"

definition scale10 :: "real \<Rightarrow> int \<Rightarrow> real" where
  "scale10 v e = (if 0 \<le> e then v * 10 ^ nat e else v / 10 ^ nat (- e))"

text \<open>The optional ExponentPart that ends a decimal literal: its value, or None if malformed.\<close>

definition exponent_part :: "jsstring \<Rightarrow> int option" where
  "exponent_part s =
     (case s of
        [] \<Rightarrow> Some 0
      | c # r \<Rightarrow>
          if c = 0x65 \<or> c = 0x45 then
            (case r of
               [] \<Rightarrow> None
             | sg # ds \<Rightarrow>
                 if sg = 0x2B \<or> sg = 0x2D then
                   (if ds \<noteq> [] \<and> list_all is_digit ds
                    then Some ((if sg = 0x2D then - 1 else 1) * int (digits_value 10 ds))
                    else None)
                 else if list_all is_digit r then Some (int (digits_value 10 r)) else None)
          else None)"

text \<open>StrUnsignedDecimalLiteral: \<open>Infinity\<close>, or digits with an optional fraction and exponent.\<close>

definition unsigned_decimal :: "jsstring \<Rightarrow> jsnum" where
  "unsigned_decimal s =
     (if s = js ''Infinity'' then PosInf
      else
        let ip = takeWhile is_digit s in
        (case dropWhile is_digit s of
           [] \<Rightarrow> if ip = [] then NaN else Fin (real (digits_value 10 ip))
         | c # r \<Rightarrow>
             if c = 0x2E then
               (let fp = takeWhile is_digit r in
                if ip = [] \<and> fp = [] then NaN
                else
                  (case exponent_part (dropWhile is_digit r) of
                     None \<Rightarrow> NaN
                   | Some e \<Rightarrow>
                       Fin (scale10 (real (digits_value 10 ip) +
                                     real (digits_value 10 fp) / 10 ^ length fp) e)))
             else if ip = [] then NaN
             else
               (case exponent_part (c # r) of
                  None \<Rightarrow> NaN
                | Some e \<Rightarrow> Fin (scale10 (real (digits_value 10 ip)) e))))"

definition negate :: "jsnum \<Rightarrow> jsnum" where
  "negate n = (case n of NaN \<Rightarrow> NaN | NegInf \<Rightarrow> PosInf | Fin v \<Rightarrow> Fin (- v) | PosInf \<Rightarrow> NegInf)"

text \<open>
  StringToNumber: white space is trimmed; the empty string is 0; then a binary, octal or
  hexadecimal integer literal, or a signed decimal literal; anything else is NaN.
\<close>

definition StringToNumber :: "jsstring \<Rightarrow> jsnum" where
  "StringToNumber str =
     (let s = trim str in
      case s of
        [] \<Rightarrow> Fin 0
      | c # r \<Rightarrow>
          (case r of
             p # ds \<Rightarrow>
               if c = 0x30 \<and> (p = 0x78 \<or> p = 0x58) \<and> ds \<noteq> [] \<and> list_all is_hex_digit ds
               then Fin (real (digits_value 16 ds))
               else if c = 0x30 \<and> (p = 0x6F \<or> p = 0x4F) \<and> ds \<noteq> [] \<and>
                       list_all (\<lambda>d. 0x30 \<le> d \<and> d \<le> 0x37) ds
               then Fin (real (digits_value 8 ds))
               else if c = 0x30 \<and> (p = 0x62 \<or> p = 0x42) \<and> ds \<noteq> [] \<and>
                       list_all (\<lambda>d. d = 0x30 \<or> d = 0x31) ds
               then Fin (real (digits_value 2 ds))
               else if c = 0x2B then unsigned_decimal r
               else if c = 0x2D then negate (unsigned_decimal r)
               else unsigned_decimal s
           | [] \<Rightarrow> unsigned_decimal s))"

text \<open>
  Converting an object that \<open>JSON.parse\<close> built to a primitive raises a TypeError exactly
  when it has an own member \<open>toString\<close> (a JSON value is never callable, and
  \<open>Object.prototype.valueOf\<close> returns the object itself); an array raises when an element
  that is neither \<open>null\<close> nor \<open>undefined\<close> does.
\<close>

fun to_primitive_raises :: "jsval \<Rightarrow> bool" where
  "to_primitive_raises (JObj members) = (js ''toString'' \<in> fst ` set members)"
| "to_primitive_raises (JArr elems) = (\<exists>v \<in> set elems. to_primitive_raises v)"
| "to_primitive_raises _ = False"

text \<open>
  ToNumber. A plain object converts through the string \<open>[object Object]\<close>, which is NaN. An
  array converts through its elements joined by commas: the empty array through the empty
  string, an array of two or more elements through a string with a comma, which is NaN, and a
  one-element array through the string of its element (empty for \<open>null\<close> and
  \<open>undefined\<close>, \<open>true\<close> or \<open>false\<close> for a boolean; a number printed and read back is
  itself).
\<close>

fun to_number_value :: "jsval \<Rightarrow> jsnum" where
  "to_number_value JUndefined = NaN"
| "to_number_value JNull = Fin 0"
| "to_number_value (JBool b) = (if b then Fin 1 else Fin 0)"
| "to_number_value (JNum n) = n"
| "to_number_value (JStr s) = StringToNumber s"
| "to_number_value (JObj _) = NaN"
| "to_number_value (JArr []) = Fin 0"
| "to_number_value (JArr [JUndefined]) = Fin 0"
| "to_number_value (JArr [JBool b]) = NaN"
| "to_number_value (JArr [v]) = to_number_value v"
| "to_number_value (JArr _) = NaN"

definition ToNumber :: "jsval \<Rightarrow> exn + jsnum" where
  "ToNumber v = (if to_primitive_raises v then Inl TypeError else Inr (to_number_value v))"


section \<open>Vision analysis client (services/aiVisionService.ts)\<close>

record VisualCue =
  cue_type :: jsval
  cue_x :: jsnum
  cue_y :: jsnum
  cue_width :: jsval
  cue_height :: jsval
  cue_text :: jsval
  cue_color :: jsval

text \<open>
  Types are erased at run time: the remote path copies \<open>status\<close>, \<open>message\<close> and the elements
  of \<open>suggestions\<close> from the parsed reply as they are, so these fields hold any value.
\<close>

record ScreenAnalysis =
  currentStep :: jsnum
  confidence :: jsnum
  suggestions :: "jsval list"
  visualCues :: "VisualCue list"
  status :: jsval
  message :: jsval

subsection \<open>Remote path\<close>

text \<open>
  What lines 77 to 148 obtain from outside the program: the completion request, or reading the
  content of its first choice, throws; or the content is \<open>null\<close> or empty; or \<open>JSON.parse\<close>
  rejects the content with a SyntaxError; or it returns a value.
\<close>

datatype remote_reply =
    RequestFails exn
  | NoContent
  | Unparsable
  | Parsed jsval

text \<open>Lines 160 to 166: one cue of the reply.\<close>

definition convert_cue :: "jsval \<Rightarrow> exn + VisualCue" where
  "convert_cue cue =
     and_then (get_prop cue (js ''type'')) (\<lambda>t.
     and_then (get_prop cue (js ''x'')) (\<lambda>cx.
     and_then (ToNumber (or_else cx (JNum (Fin 100)))) (\<lambda>nx.
     and_then (get_prop cue (js ''y'')) (\<lambda>cy.
     and_then (ToNumber (or_else cy (JNum (Fin 100)))) (\<lambda>ny.
     and_then (get_prop cue (js ''width'')) (\<lambda>w.
     and_then (get_prop cue (js ''height'')) (\<lambda>h.
     and_then (get_prop cue (js ''text'')) (\<lambda>tx.
     and_then (get_prop cue (js ''color'')) (\<lambda>col.
       Inr \<lparr>cue_type = or_else t (JStr (js ''arrow'')),
            cue_x = Math_max (Fin 0) (Math_min (Fin 1920) nx),
            cue_y = Math_max (Fin 0) (Math_min (Fin 1080) ny),
            cue_width = w, cue_height = h, cue_text = tx,
            cue_color = or_else col (JStr (js ''#10B981''))\<rparr>)))))))))"

text \<open>\<open>Array.prototype.map\<close> with a callback that may throw: the first exception ends it.\<close>

fun map_cues :: "jsval list \<Rightarrow> exn + VisualCue list" where
  "map_cues [] = Inr []"
| "map_cues (cue # cues) =
     and_then (convert_cue cue) (\<lambda>c. and_then (map_cues cues) (\<lambda>cs. Inr (c # cs)))"

text \<open>
  The \<open>try\<close> block of \<open>analyzeWithOpenAI\<close>, lines 75 to 170. \<open>Array.isArray\<close> is the case
  distinction on \<open>JArr\<close>.
\<close>

definition analyzeWithOpenAI_try :: "remote_reply \<Rightarrow> jsnum \<Rightarrow> exn + ScreenAnalysis" where
  "analyzeWithOpenAI_try reply currentStepIndex =
     (case reply of
        RequestFails e \<Rightarrow> Inl e
      | NoContent \<Rightarrow> Inl (Error (js ''No response content from OpenAI''))
      | Unparsable \<Rightarrow> Inl SyntaxError
      | Parsed result \<Rightarrow>
          and_then (get_prop result (js ''status'')) (\<lambda>st.
          and_then (if truthy st then get_prop result (js ''message'') else Inr JUndefined) (\<lambda>msg.
            if \<not> truthy st \<or> \<not> truthy msg
            then Inl (Error (js ''Invalid response structure from OpenAI''))
            else
              and_then (get_prop result (js ''confidence'')) (\<lambda>c.
              and_then (ToNumber (or_else c (JNum (Fin 0.5)))) (\<lambda>n.
              and_then (get_prop result (js ''suggestions'')) (\<lambda>sg.
              and_then (get_prop result (js ''visualCues'')) (\<lambda>vc.
              and_then (case vc of JArr cues \<Rightarrow> map_cues cues | _ \<Rightarrow> Inr []) (\<lambda>cues.
                Inr \<lparr>currentStep = currentStepIndex,
                     confidence = Math_max (Fin 0) (Math_min (Fin 1) n),
                     suggestions = (case sg of JArr elems \<Rightarrow> elems | _ \<Rightarrow> []),
                     visualCues = cues,
                     status = st,
                     message = msg\<rparr>))))))))"

text \<open>
  The \<open>catch\<close> block, lines 171 to 197. \<open>response\<close> is declared by \<open>const\<close> inside the
  \<open>try\<close> block (line 77), so the \<open>catch\<close> block does not see it, and the module and the
  browser define no other binding of that name: evaluating \<open>response\<close> on line 175 throws a
  ReferenceError. The right operand of \<open>&&\<close> is evaluated only for a SyntaxError, so a
  SyntaxError leaves as a ReferenceError, any other exception is thrown again on line 196, and
  lines 176 to 192 never run.
\<close>

definition analyzeWithOpenAI :: "remote_reply \<Rightarrow> jsnum \<Rightarrow> exn + ScreenAnalysis" where
  "analyzeWithOpenAI reply currentStepIndex =
     (case analyzeWithOpenAI_try reply currentStepIndex of
        Inr analysis \<Rightarrow> Inr analysis
      | Inl error \<Rightarrow> if error = SyntaxError then Inl ReferenceError else Inl error)"

subsection \<open>Simulated path\<close>

text \<open>A result of \<open>Math.random()\<close>: at least 0 and less than 1.\<close>

typedef random = "{r :: real. 0 \<le> r \<and> r < 1}"
  morphisms random_value Random
  by (rule exI [of _ 0]) simp

text \<open>
  Lines 211 to 263. The three scenario objects are built first, drawing the six coordinates in
  order; \<open>rnd k\<close> is the result of the call number \<open>k\<close> of \<open>Math.random\<close>. The property
  \<open>currentStep\<close> that line 269 adds is written into each scenario here.
\<close>

definition scenarios :: "(nat \<Rightarrow> random) \<Rightarrow> jsnum \<Rightarrow> ScreenAnalysis list" where
  "scenarios rnd currentStepIndex =
     [\<lparr>currentStep = currentStepIndex,
       confidence = Fin 0.85,
       suggestions = [JStr (js ''Continue with the current step''),
                      JStr (js ''You'' @ 0x27 # js ''re doing great!'')],
       visualCues =
         [\<lparr>cue_type = JStr (js ''arrow''),
           cue_x = Fin (random_value (rnd 0) * 800 + 100),
           cue_y = Fin (random_value (rnd 1) * 600 + 100),
           cue_width = JUndefined, cue_height = JUndefined,
           cue_text = JStr (js ''Click here next''),
           cue_color = JStr (js ''#10B981'')\<rparr>],
       status = JStr (js ''on_track''),
       message = JStr (js ''Perfect! You'' @ 0x27 #
                       js ''re following the instructions correctly.'')\<rparr>,
      \<lparr>currentStep = currentStepIndex,
       confidence = Fin 0.65,
       suggestions = [JStr (js ''Try looking for the element mentioned in the instruction''),
                      JStr (js ''Make sure you'' @ 0x27 # js ''re on the correct page''),
                      JStr (js ''Check if any popups or dialogs are blocking the view'')],
       visualCues =
         [\<lparr>cue_type = JStr (js ''highlight''),
           cue_x = Fin (random_value (rnd 2) * 600 + 200),
           cue_y = Fin (random_value (rnd 3) * 400 + 150),
           cue_width = JNum (Fin 200), cue_height = JNum (Fin 50),
           cue_text = JStr (js ''Look for this area''),
           cue_color = JStr (js ''#F59E0B'')\<rparr>],
       status = JStr (js ''off_track''),
       message = JStr (js ''It looks like you might be on the wrong page or element.'')\<rparr>,
      \<lparr>currentStep = currentStepIndex,
       confidence = Fin 0.95,
       suggestions = [JStr (js ''Ready to move to the next step'')],
       visualCues =
         [\<lparr>cue_type = JStr (js ''circle''),
           cue_x = Fin (random_value (rnd 4) * 700 + 150),
           cue_y = Fin (random_value (rnd 5) * 500 + 100),
           cue_width = JUndefined, cue_height = JUndefined,
           cue_text = JStr (0x2713 # js '' Completed''),
           cue_color = JStr (js ''#10B981'')\<rparr>],
       status = JStr (js ''completed''),
       message = JStr (js ''Excellent! This step appears to be completed.'')\<rparr>]"

text \<open>
  Line 266: \<open>Math.floor(Math.random() * scenarios.length)\<close>, the seventh draw. It is 0, 1 or
  2, since the draw is less than 1.
\<close>

definition scenario_index :: "random \<Rightarrow> nat" where
  "scenario_index r = nat \<lfloor>random_value r * 3\<rfloor>"

definition simulateAIAnalysis ::
  "(nat \<Rightarrow> random) \<Rightarrow> jsstring \<Rightarrow> jsstring list \<Rightarrow> jsnum \<Rightarrow> ScreenAnalysis" where
  "simulateAIAnalysis rnd screenImageData instructions currentStepIndex =
     scenarios rnd currentStepIndex ! scenario_index (rnd 6)"

subsection \<open>analyzeScreen\<close>

record AIVisionService =
  isAnalyzing :: bool
  analysisInterval :: "nat option"

text \<open>
  One call of \<open>analyzeScreen\<close>: its arguments, and what it meets outside the program: the
  configured API key (None when undefined), the reply of the remote service, the random draws.
\<close>

record call =
  screenImageData :: jsstring
  instructions :: "jsstring list"
  currentStepIndex :: jsnum
  api_key :: "jsstring option"
  reply :: remote_reply
  draws :: "nat \<Rightarrow> random"

text \<open>Lines 37 to 41, which run before the call first waits: the guard.\<close>

definition analyzeScreen_enter :: "AIVisionService \<Rightarrow> exn + AIVisionService" where
  "analyzeScreen_enter this =
     (if isAnalyzing this then Inl (Error (js ''Analysis already in progress''))
      else Inr (this\<lparr>isAnalyzing := True\<rparr>))"

text \<open>Lines 43 to 63: the \<open>try\<close> block, and the \<open>catch\<close> block that falls back to simulation.\<close>

definition analyzeScreen_try :: "call \<Rightarrow> exn + ScreenAnalysis" where
  "analyzeScreen_try c =
     (if api_key c = None \<or> api_key c = Some [] \<or> api_key c = Some (js ''demo-key'')
      then Inr (simulateAIAnalysis (draws c) (screenImageData c) (instructions c)
                  (currentStepIndex c))
      else analyzeWithOpenAI (reply c) (currentStepIndex c))"

definition analyzeScreen_body :: "call \<Rightarrow> exn + ScreenAnalysis" where
  "analyzeScreen_body c =
     (case analyzeScreen_try c of
        Inr analysis \<Rightarrow> Inr analysis
      | Inl error \<Rightarrow>
          Inr (simulateAIAnalysis (draws c) (screenImageData c) (instructions c)
                 (currentStepIndex c)))"

text \<open>Lines 64 to 66: the \<open>finally\<close> block, run however the body ends.\<close>

definition analyzeScreen_finally :: "AIVisionService \<Rightarrow> AIVisionService" where
  "analyzeScreen_finally this = this\<lparr>isAnalyzing := False\<rparr>"

definition isAnalysisRunning :: "AIVisionService \<Rightarrow> bool" where
  "isAnalysisRunning this = isAnalyzing this"

text \<open>A call run from start to end with nothing in between.\<close>

definition analyzeScreen :: "AIVisionService \<Rightarrow> call \<Rightarrow> (exn + ScreenAnalysis) \<times> AIVisionService" where
  "analyzeScreen this c =
     (case analyzeScreen_enter this of
        Inl e \<Rightarrow> (Inl e, this)
      | Inr this' \<Rightarrow> (analyzeScreen_body c, analyzeScreen_finally this'))"


subsection \<open>Polling controller\<close>

text \<open>
  The service together with what the event loop holds for it: the calls of \<open>analyzeScreen\<close>
  that passed the guard and have not finished, and the interval timers that the service set
  and that are not cleared, each with its delay. \<open>setInterval\<close> returns a handle that was
  never returned before; in a browser handles are positive integers.
\<close>

record world =
  service :: AIVisionService
  in_flight :: "call list"
  timers :: "nat \<rightharpoonup> jsnum"
  next_handle :: nat

definition setInterval :: "jsnum \<Rightarrow> world \<Rightarrow> nat \<times> world" where
  "setInterval ms w =
     (next_handle w,
      w\<lparr>timers := (timers w)(next_handle w \<mapsto> ms), next_handle := next_handle w + 1\<rparr>)"

definition clearInterval :: "nat \<Rightarrow> world \<Rightarrow> world" where
  "clearInterval h w = w\<lparr>timers := (timers w)(h := None)\<rparr>"

text \<open>Lines 299 to 304. The test \<open>if (this.analysisInterval)\<close> fails for \<open>null\<close> and for 0.\<close>

definition stopContinuousAnalysis :: "world \<Rightarrow> world" where
  "stopContinuousAnalysis w =
     (case analysisInterval (service w) of
        None \<Rightarrow> w
      | Some h \<Rightarrow>
          if h \<noteq> 0
          then (clearInterval h w)\<lparr>service := (service w)\<lparr>analysisInterval := None\<rparr>\<rparr>
          else w)"

text \<open>
  Lines 274 to 297. The four callbacks are kept by the timer and act only when it fires (see
  \<open>interval_callback\<close>); of the arguments, the model of the timer keeps the delay.
\<close>

definition startContinuousAnalysis :: "jsnum \<Rightarrow> world \<Rightarrow> world" where
  "startContinuousAnalysis intervalMs w =
     (let (h, w') = setInterval intervalMs (stopContinuousAnalysis w)
      in w'\<lparr>service := (service w')\<lparr>analysisInterval := Some h\<rparr>\<rparr>)"

text \<open>
  A call of \<open>analyzeScreen\<close> up to its first wait: rejected at once by the guard (the caller
  sees the exception and nothing changes), or admitted and suspended.
\<close>

definition invoke :: "call \<Rightarrow> world \<Rightarrow> (exn + ScreenAnalysis) option \<times> world" where
  "invoke c w =
     (case analyzeScreen_enter (service w) of
        Inl e \<Rightarrow> (Some (Inl e), w)
      | Inr this' \<Rightarrow> (None, w\<lparr>service := this', in_flight := in_flight w @ [c]\<rparr>))"

text \<open>The suspended call finishes: its caller sees the outcome of the body, and \<open>finally\<close> runs.\<close>

definition settle :: "world \<Rightarrow> (exn + ScreenAnalysis) option \<times> world" where
  "settle w =
     (case in_flight w of
        [] \<Rightarrow> (None, w)
      | c # cs \<Rightarrow>
          (Some (analyzeScreen_body c),
           w\<lparr>service := analyzeScreen_finally (service w), in_flight := cs\<rparr>))"

text \<open>
  Lines 283 to 296, the callback of the timer, with the values its three providers return in
  \<open>c\<close>: it calls \<open>analyzeScreen\<close> if the screen data is not empty and there are
  instructions, and swallows any exception.
\<close>

definition interval_callback :: "call \<Rightarrow> world \<Rightarrow> world" where
  "interval_callback c w =
     (if screenImageData c \<noteq> [] \<and> length (instructions c) > 0 then snd (invoke c w) else w)"

datatype event =
    Analyze call
  | Settle
  | Start jsnum
  | Stop
  | Tick call

fun step :: "event \<Rightarrow> world \<Rightarrow> world" where
  "step (Analyze c) w = snd (invoke c w)"
| "step Settle w = snd (settle w)"
| "step (Start ms) w = startContinuousAnalysis ms w"
| "step Stop w = stopContinuousAnalysis w"
| "step (Tick c) w = interval_callback c w"

definition initial_world :: world where
  "initial_world =
     \<lparr>service = \<lparr>isAnalyzing = False, analysisInterval = None\<rparr>,
      in_flight = [], timers = Map.empty, next_handle = 1\<rparr>"

inductive reachable :: "world \<Rightarrow> bool" where
  initial: "reachable initial_world"
| step: "reachable w \<Longrightarrow> reachable (step ev w)"

text \<open>
  What holds in every reachable world: the guard is set exactly while a call is suspended, at
  most one call is; the timers of the service are the one whose handle the service holds, if
  any; handles are positive and below the next one.
\<close>

definition world_inv :: "world \<Rightarrow> bool" where
  "world_inv w \<longleftrightarrow>
     (isAnalyzing (service w) \<longleftrightarrow> in_flight w \<noteq> []) \<and> length (in_flight w) \<le> 1 \<and>
     0 < next_handle w \<and> (\<forall>h \<in> dom (timers w). h < next_handle w) \<and>
     (case analysisInterval (service w) of
        None \<Rightarrow> dom (timers w) = {}
      | Some h \<Rightarrow> dom (timers w) = {h} \<and> 0 < h)"


section \<open>Guidance orchestrator (the component TaskInputPanel, in components/Header.tsx)\<close>

text \<open>
  The state of the panel that the step handlers read and write. A handler is a closure of the
  render that created it: it reads \<open>currentStep\<close> and \<open>processedInstructions\<close> of that
  render (\<open>r\<close> below), while an updater \<open>prev => ...\<close> acts on the latest state (\<open>s\<close>). A
  handler run from a timer may belong to an earlier render.
\<close>

record panel =
  processedInstructions :: "Instruction list"
  panel_currentStep :: nat

definition mark_current :: "nat \<Rightarrow> Instruction list \<Rightarrow> Instruction list" where
  "mark_current k prev =
     map (\<lambda>(index, inst). inst\<lparr>inst_current := (index = k)\<rparr>) (enumerate 0 prev)"

text \<open>Lines 157 to 168 and 170 to 181.\<close>

definition panel_handleNextStep :: "panel \<Rightarrow> panel \<Rightarrow> panel" where
  "panel_handleNextStep r s =
     (if int (panel_currentStep r) < int (length (processedInstructions r)) - 1
      then let nextStep = panel_currentStep r + 1
           in s\<lparr>panel_currentStep := nextStep,
                processedInstructions := mark_current nextStep (processedInstructions s)\<rparr>
      else s)"

definition panel_handlePreviousStep :: "panel \<Rightarrow> panel \<Rightarrow> panel" where
  "panel_handlePreviousStep r s =
     (if panel_currentStep r > 0
      then let prevStep = panel_currentStep r - 1
           in s\<lparr>panel_currentStep := prevStep,
                processedInstructions := mark_current prevStep (processedInstructions s)\<rparr>
      else s)"

text \<open>
  Lines 140 to 155: the update made at once. One second later, if the step of the render was
  not the last, the \<open>handleNextStep\<close> of the same render runs (\<open>panel_auto_advance\<close>).
\<close>

definition panel_handleStepComplete :: "nat \<Rightarrow> panel \<Rightarrow> panel" where
  "panel_handleStepComplete stepId s =
     s\<lparr>processedInstructions :=
         map (\<lambda>inst. if inst_id inst = stepId
                      then inst\<lparr>inst_completed := True, inst_current := False\<rparr>
                      else inst)
           (processedInstructions s)\<rparr>"

definition panel_auto_advance :: "panel \<Rightarrow> panel \<Rightarrow> panel" where
  "panel_auto_advance r s =
     (if int (panel_currentStep r) < int (length (processedInstructions r)) - 1
      then panel_handleNextStep r s
      else s)"

text \<open>
  Lines 208 to 213: two seconds after an analysis with status \<open>completed\<close>, if the step of the
  render is not completed, that step is completed. Reading \<open>id\<close> of a step that does not exist
  throws in the timer, and the state stays as it is.
\<close>

definition panel_ai_complete :: "panel \<Rightarrow> ScreenAnalysis \<Rightarrow> panel \<Rightarrow> panel" where
  "panel_ai_complete r analysis s =
     (if status analysis = JStr (js ''completed'') \<and>
         \<not> (panel_currentStep r < length (processedInstructions r) \<and>
            inst_completed (processedInstructions r ! panel_currentStep r))
      then if panel_currentStep r < length (processedInstructions r)
           then panel_handleStepComplete
                  (inst_id (processedInstructions r ! panel_currentStep r)) s
           else s
      else s)"

datatype panel_event =
    PanelStepComplete nat
  | PanelNextStep
  | PanelPreviousStep
  | PanelAutoAdvance
  | PanelAiComplete ScreenAnalysis

fun panel_step :: "panel \<Rightarrow> panel_event \<Rightarrow> panel \<Rightarrow> panel" where
  "panel_step r (PanelStepComplete stepId) s = panel_handleStepComplete stepId s"
| "panel_step r PanelNextStep s = panel_handleNextStep r s"
| "panel_step r PanelPreviousStep s = panel_handlePreviousStep r s"
| "panel_step r PanelAutoAdvance s = panel_auto_advance r s"
| "panel_step r (PanelAiComplete analysis) s = panel_ai_complete r analysis s"

text \<open>
  The two operations of the panel that replace the whole list: lines 117 to 119, when the
  processor delivers the steps of a new task, and lines 229 to 237, back to the input phase.
  They are not step operations and are no events of \<open>panel_step\<close>.
\<close>

definition panel_handleInstructionsProcessed :: "Instruction list \<Rightarrow> panel \<Rightarrow> panel" where
  "panel_handleInstructionsProcessed instrs s = s\<lparr>processedInstructions := instrs\<rparr>"

definition panel_handleBackToInput :: "panel \<Rightarrow> panel" where
  "panel_handleBackToInput s = s\<lparr>processedInstructions := [], panel_currentStep := 0\<rparr>"

text \<open>Every instruction keeps its id, and its mark if it was completed.\<close>

definition instructions_kept :: "Instruction list \<Rightarrow> Instruction list \<Rightarrow> bool" where
  "instructions_kept before after \<longleftrightarrow>
     list_all2 (\<lambda>a b. inst_id b = inst_id a \<and> (inst_completed a \<longrightarrow> inst_completed b))
       before after"

section \<open>Task viewer (TaskViewer.tsx)\<close>

datatype step_type = action | info | warning

record Step =
  step_id :: nat
  step_title :: jsstring
  step_description :: jsstring
  step_completed :: bool
  step_kind :: step_type

text \<open>
  The steps of the current task and the index the viewer shows. \<open>[...currentTask.steps]\<close>
  copies the array and not the steps, so line 45 writes into the step of the task itself.
\<close>

record viewer =
  task_steps :: "Step list"
  viewer_currentStep :: nat

definition viewer_handleNextStep :: "viewer \<Rightarrow> viewer \<Rightarrow> viewer" where
  "viewer_handleNextStep r s =
     (if int (viewer_currentStep r) < int (length (task_steps r)) - 1
      then s\<lparr>viewer_currentStep := viewer_currentStep r + 1\<rparr>
      else s)"

definition viewer_handlePreviousStep :: "viewer \<Rightarrow> viewer \<Rightarrow> viewer" where
  "viewer_handlePreviousStep r s =
     (if viewer_currentStep r > 0
      then s\<lparr>viewer_currentStep := viewer_currentStep r - 1\<rparr>
      else s)"

text \<open>
  Lines 43 to 46: the write; it throws a TypeError when there is no step at the index.
  Lines 48 to 52: one second later the index of the render plus one is set, if that step was
  not the last.
\<close>

definition viewer_handleStepComplete :: "viewer \<Rightarrow> viewer \<Rightarrow> exn + viewer" where
  "viewer_handleStepComplete r s =
     (let i = viewer_currentStep r
      in if i < length (task_steps s)
         then Inr (s\<lparr>task_steps := (task_steps s)[i := (task_steps s ! i)\<lparr>step_completed := True\<rparr>]\<rparr>)
         else Inl TypeError)"

definition viewer_auto_advance :: "viewer \<Rightarrow> viewer \<Rightarrow> viewer" where
  "viewer_auto_advance r s =
     (if int (viewer_currentStep r) < int (length (task_steps r)) - 1
      then s\<lparr>viewer_currentStep := viewer_currentStep r + 1\<rparr>
      else s)"

datatype viewer_event =
    ViewerStepComplete
  | ViewerNextStep
  | ViewerPreviousStep
  | ViewerSelectStep nat
  | ViewerAutoAdvance

text \<open>A handler that throws leaves the state as it was.\<close>

fun viewer_step :: "viewer \<Rightarrow> viewer_event \<Rightarrow> viewer \<Rightarrow> viewer" where
  "viewer_step r ViewerStepComplete s =
     (case viewer_handleStepComplete r s of Inr s' \<Rightarrow> s' | Inl e \<Rightarrow> s)"
| "viewer_step r ViewerNextStep s = viewer_handleNextStep r s"
| "viewer_step r ViewerPreviousStep s = viewer_handlePreviousStep r s"
| "viewer_step r (ViewerSelectStep index) s = s\<lparr>viewer_currentStep := index\<rparr>"
| "viewer_step r ViewerAutoAdvance s = viewer_auto_advance r s"

definition steps_kept :: "Step list \<Rightarrow> Step list \<Rightarrow> bool" where
  "steps_kept before after \<longleftrightarrow>
     list_all2 (\<lambda>a b. step_id b = step_id a \<and> (step_completed a \<longrightarrow> step_completed b))
       before after"

section \<open>Floating guide popup (AIGuidePopup.tsx)\<close>

record GuideStep =
  guide_step_id :: jsnum
  guide_step_title :: jsstring
  guide_step_description :: jsstring
  guide_step_completed :: bool

datatype guide_status = Active | Paused | Completed | Dismissed

record GuideState =
  isVisible :: bool
  guide_currentStep :: int
  isMinimized :: bool
  isPlaying :: bool
  position :: "jsnum \<times> jsnum"
  completedSteps :: "jsnum list"
  guide_status :: guide_status

definition STORAGE_KEY :: jsstring where
  "STORAGE_KEY = js ''aiGuideState''"

definition STATUS_KEY :: jsstring where
  "STATUS_KEY = js ''aiGuideStatus''"

text \<open>Lines 50 to 99, the steps used when the property \<open>steps\<close> is not given.\<close>

definition defaultSteps :: "GuideStep list" where
  "defaultSteps =
     [\<lparr>guide_step_id = Fin 1, guide_step_title = js ''Welcome to AI Guide'',
       guide_step_description = js ''This popup will guide you through tasks step by step. You can drag it around and it will persist across page reloads.'',
       guide_step_completed = False\<rparr>,
      \<lparr>guide_step_id = Fin 2, guide_step_title = js ''Navigation Controls'',
       guide_step_description = js ''Use the Previous/Next buttons to navigate between steps, or click the step numbers at the bottom.'',
       guide_step_completed = False\<rparr>,
      \<lparr>guide_step_id = Fin 3, guide_step_title = js ''Auto-Play Feature'',
       guide_step_description = js ''Click the Play button to automatically advance through steps every 10 seconds.'',
       guide_step_completed = False\<rparr>,
      \<lparr>guide_step_id = Fin 4, guide_step_title = js ''Minimize & Maximize'',
       guide_step_description = js ''Click the minimize button to collapse the popup while keeping it accessible.'',
       guide_step_completed = False\<rparr>,
      \<lparr>guide_step_id = Fin 5, guide_step_title = js ''Persistent State'',
       guide_step_description = js ''Your progress is automatically saved. Refresh the page and this popup will remember where you left off.'',
       guide_step_completed = False\<rparr>,
      \<lparr>guide_step_id = Fin 6, guide_step_title = js ''Complete Steps'',
       guide_step_description = js ''Mark steps as complete using the Complete button. Completed steps are saved automatically.'',
       guide_step_completed = False\<rparr>,
      \<lparr>guide_step_id = Fin 7, guide_step_title = js ''Drag to Reposition'',
       guide_step_description = js ''Grab the header area to drag this popup to any position on your screen.'',
       guide_step_completed = False\<rparr>,
      \<lparr>guide_step_id = Fin 8, guide_step_title = js ''Finish Guide'',
       guide_step_description = js ''When you'' @ 0x27 # js ''re done, click the Done button to permanently dismiss this guide.'',
       guide_step_completed = False\<rparr>]"

text \<open>
  Lines 109 to 148, the initial state. \<open>localStorage\<close> maps keys to texts. \<open>JSON_parse\<close> is
  the platform's parser read at the type of the state that line 178 stores: None when it
  throws.
\<close>

definition initial_guideState ::
  "(jsstring \<rightharpoonup> jsstring) \<Rightarrow> (jsstring \<Rightarrow> GuideState option) \<Rightarrow> bool \<Rightarrow> jsnum \<times> jsnum \<Rightarrow>
   GuideState" where
  "initial_guideState localStorage JSON_parse autoStart pos =
     (let fresh = \<lparr>isVisible = autoStart, guide_currentStep = 0, isMinimized = False,
                    isPlaying = False, position = pos, completedSteps = [],
                    guide_status = Active\<rparr>
      in if localStorage STATUS_KEY = Some (js ''done'')
         then \<lparr>isVisible = False, guide_currentStep = 0, isMinimized = False,
               isPlaying = False, position = pos, completedSteps = [],
               guide_status = Dismissed\<rparr>
         else
           (case localStorage STORAGE_KEY of
              None \<Rightarrow> fresh
            | Some saved \<Rightarrow>
                if saved \<noteq> []
                then (case JSON_parse saved of
                        Some parsed \<Rightarrow> parsed\<lparr>isVisible := True, isPlaying := False\<rparr>
                      | None \<Rightarrow> fresh)
                else fresh))"

text \<open>Lines 298 to 301: whether the component renders the popup; \<open>portal\<close> says whether the
  portal container exists.\<close>

definition renders_popup :: "GuideState \<Rightarrow> bool \<Rightarrow> bool" where
  "renders_popup guideState portal \<longleftrightarrow>
     \<not> (\<not> isVisible guideState \<or> guide_status guideState = Dismissed \<or> \<not> portal)"

text \<open>Lines 280 and 281: what \<open>handleDone\<close> writes to the storage.\<close>

definition handleDone_storage :: "(jsstring \<rightharpoonup> jsstring) \<Rightarrow> (jsstring \<rightharpoonup> jsstring)" where
  "handleDone_storage localStorage = (localStorage(STATUS_KEY \<mapsto> js ''done''))(STORAGE_KEY := None)"

text \<open>
  The handlers, lines 186 to 296. \<open>steps\<close> is the property of the component, \<open>r\<close> the state of
  the render that created the handler, \<open>s\<close> the latest state.
\<close>

definition auto_play_tick :: "GuideStep list \<Rightarrow> GuideState \<Rightarrow> GuideState" where
  "auto_play_tick steps s =
     (if guide_currentStep s < int (length steps) - 1
      then s\<lparr>guide_currentStep := guide_currentStep s + 1\<rparr>
      else s\<lparr>isPlaying := False\<rparr>)"

definition handlePrevious :: "GuideState \<Rightarrow> GuideState \<Rightarrow> GuideState" where
  "handlePrevious r s =
     (if guide_currentStep r > 0
      then s\<lparr>guide_currentStep := guide_currentStep s - 1, isPlaying := False\<rparr>
      else s)"

definition handleNext :: "GuideStep list \<Rightarrow> GuideState \<Rightarrow> GuideState \<Rightarrow> GuideState" where
  "handleNext steps r s =
     (if guide_currentStep r < int (length steps) - 1
      then s\<lparr>guide_currentStep := guide_currentStep s + 1, isPlaying := False\<rparr>
      else s)"

definition handleStepClick :: "int \<Rightarrow> GuideState \<Rightarrow> GuideState" where
  "handleStepClick stepIndex s = s\<lparr>guide_currentStep := stepIndex, isPlaying := False\<rparr>"

text \<open>
  Lines 244 to 252. \<open>currentStep.id\<close> throws a TypeError when the render has no step at its
  index (line 212). \<open>includes\<close> compares by SameValueZero, which on numbers is equality here (one zero,
  NaN equal to itself).
\<close>

definition handleComplete :: "GuideStep list \<Rightarrow> GuideState \<Rightarrow> GuideState \<Rightarrow> exn + GuideState" where
  "handleComplete steps r s =
     (if 0 \<le> guide_currentStep r \<and> guide_currentStep r < int (length steps)
      then let stepId = guide_step_id (steps ! nat (guide_currentStep r))
           in Inr (s\<lparr>completedSteps :=
                       (if stepId \<in> set (completedSteps s) then completedSteps s
                        else completedSteps s @ [stepId])\<rparr>)
      else Inl TypeError)"

definition handlePlayPause :: "GuideState \<Rightarrow> GuideState" where
  "handlePlayPause s = s\<lparr>isPlaying := \<not> isPlaying s\<rparr>"

definition handleMinimize :: "GuideState \<Rightarrow> GuideState" where
  "handleMinimize s = s\<lparr>isMinimized := \<not> isMinimized s, isPlaying := False\<rparr>"

definition handleRestart :: "GuideState \<Rightarrow> GuideState" where
  "handleRestart s =
     s\<lparr>guide_currentStep := 0, completedSteps := [], isPlaying := False, guide_status := Active\<rparr>"

definition handleDone :: "GuideState \<Rightarrow> GuideState" where
  "handleDone s = s\<lparr>isVisible := False, guide_status := Dismissed\<rparr>"

definition handleDragStop :: "jsnum \<times> jsnum \<Rightarrow> GuideState \<Rightarrow> GuideState" where
  "handleDragStop xy s = s\<lparr>position := xy\<rparr>"

datatype guide_event =
    GuidePrevious
  | GuideNext
  | GuideStepClick int
  | GuideComplete
  | GuidePlayPause
  | GuideMinimize
  | GuideRestart
  | GuideDone
  | GuideDragStop "jsnum \<times> jsnum"
  | GuideAutoPlayTick

fun guide_step :: "GuideStep list \<Rightarrow> GuideState \<Rightarrow> guide_event \<Rightarrow> GuideState \<Rightarrow> GuideState" where
  "guide_step steps r GuidePrevious s = handlePrevious r s"
| "guide_step steps r GuideNext s = handleNext steps r s"
| "guide_step steps r (GuideStepClick stepIndex) s = handleStepClick stepIndex s"
| "guide_step steps r GuideComplete s =
     (case handleComplete steps r s of Inr s' \<Rightarrow> s' | Inl e \<Rightarrow> s)"
| "guide_step steps r GuidePlayPause s = handlePlayPause s"
| "guide_step steps r GuideMinimize s = handleMinimize s"
| "guide_step steps r GuideRestart s = handleRestart s"
| "guide_step steps r GuideDone s = handleDone s"
| "guide_step steps r (GuideDragStop xy) s = handleDragStop xy s"
| "guide_step steps r GuideAutoPlayTick s = auto_play_tick steps s"

text \<open>
  The states of the popup. It is mounted with no state stored; or a handler, belonging to some
  render, acts on a state; or it is mounted again on a storage whose state key holds the text
  of an earlier state. Lines 176 to 180 store every state that is not dismissed, as the text
  that \<open>JSON.stringify\<close> writes, and the mount reads it through lines 109 to 148: step ids
  and coordinates are finite numbers, so the parser gives that state back. Whether the
  dismissal key is set at that mount is left open, so the mount after \<open>handleDone\<close>, which
  starts from the dismissed initial state, is among these.
\<close>

inductive guide_reachable :: "GuideStep list \<Rightarrow> GuideState \<Rightarrow> bool" for steps where
  guide_initial:
    "localStorage STORAGE_KEY = None \<Longrightarrow>
     guide_reachable steps (initial_guideState localStorage JSON_parse autoStart pos)"
| guide_next:
    "guide_reachable steps s \<Longrightarrow> guide_reachable steps (guide_step steps r ev s)"
| guide_mount:
    "guide_reachable steps s \<Longrightarrow> guide_status s \<noteq> Dismissed \<Longrightarrow>
     localStorage STORAGE_KEY = Some saved \<Longrightarrow> JSON_parse saved = Some s \<Longrightarrow>
     guide_reachable steps (initial_guideState localStorage JSON_parse autoStart pos)"


section \<open>Properties of the instruction processor\<close>

lemma last_dropWhile_rev:
  "dropWhile P (rev u) \<noteq> [] \<Longrightarrow> u \<noteq> [] \<and> last (dropWhile P (rev u)) = hd u"
proof -
  assume v: "dropWhile P (rev u) \<noteq> []"
  then have u: "u \<noteq> []" by auto
  have "last (dropWhile P (rev u)) = last (rev u)" using v
    by (metis takeWhile_dropWhile_id last_appendR)
  with u show ?thesis by (simp add: last_rev)
qed

lemma trim_head: "trim s \<noteq> [] \<Longrightarrow> \<not> is_white_space (hd (trim s))"
proof -
  assume ne: "trim s \<noteq> []"
  define u where "u = dropWhile is_white_space s"
  from ne have v: "dropWhile is_white_space (rev u) \<noteq> []" by (simp add: trim_def u_def)
  from last_dropWhile_rev [OF v]
  have u: "u \<noteq> []" and l: "last (dropWhile is_white_space (rev u)) = hd u"
    by simp_all
  have "hd (trim s) = hd u" using v l by (simp add: trim_def hd_rev u_def)
  moreover have "\<not> is_white_space (hd u)" using u unfolding u_def by (rule hd_dropWhile)
  ultimately show ?thesis by simp
qed

lemma trim_last: "trim s \<noteq> [] \<Longrightarrow> \<not> is_white_space (last (trim s))"
proof -
  assume ne: "trim s \<noteq> []"
  define v where "v = dropWhile is_white_space (rev (dropWhile is_white_space s))"
  from ne have v: "v \<noteq> []" by (simp add: trim_def v_def)
  have "last (trim s) = hd v" using v by (simp add: trim_def last_rev v_def)
  moreover have "\<not> is_white_space (hd v)" using v unfolding v_def by (rule hd_dropWhile)
  ultimately show ?thesis by simp
qed

lemma trim_idem: "trim (trim s) = trim s"
proof (cases "trim s = []")
  case True
  have "trim [] = []" by (simp add: trim_def)
  with True show ?thesis by simp
next
  case False
  have a: "dropWhile is_white_space (trim s) = trim s"
    using trim_head [OF False] by (simp add: dropWhile_eq_self_iff)
  have b: "dropWhile is_white_space (rev (trim s)) = rev (trim s)"
    using trim_last [OF False] False by (simp add: dropWhile_eq_self_iff hd_rev)
  show ?thesis
    unfolding trim_def [of "trim s"] a b by simp
qed

lemma later_not_current:
  "x \<in> set (map (\<lambda>(index, step).
               \<lparr>inst_id = index + 1, inst_text = trim step,
                inst_completed = False, inst_current = (index = 0)\<rparr>) (enumerate (Suc n) ys)) \<Longrightarrow>
   \<not> inst_current x"
  by (auto simp: in_set_enumerate_eq)

lemma text_of_step:
  "x \<in> set (map (\<lambda>(index, step).
               \<lparr>inst_id = index + 1, inst_text = trim step,
                inst_completed = False, inst_current = (index = 0)\<rparr>) (enumerate n ys)) \<Longrightarrow>
   \<exists>step \<in> set ys. inst_text x = trim step"
proof -
  assume "x \<in> set (map (\<lambda>(index, step).
               \<lparr>inst_id = index + 1, inst_text = trim step,
                inst_completed = False, inst_current = (index = 0)\<rparr>) (enumerate n ys))"
  then obtain p where p: "p \<in> set (enumerate n ys)" and x: "inst_text x = trim (snd p)"
    by (auto simp del: enumerate_eq_zip)
  from p have "snd p \<in> set (map snd (enumerate n ys))" by (simp only: set_map) (rule imageI)
  then have "snd p \<in> set ys" by (simp only: map_snd_enumerate)
  with x show ?thesis by blast
qed

text \<open>
  C1, as amended: for every raw text the processor yields at most 8 steps, the text of each
  has trimmed length at least 10, and if there is any step then the first one is marked current
  and it is the only one; the text yields no step, and so no current step, exactly when none
  of its fragments has more than 10 characters after trimming.
\<close>

theorem processInstructions_steps:
  "length (processInstructions raw) \<le> 8 \<and>
   (\<forall>s \<in> set (processInstructions raw). 10 \<le> length (trim (inst_text s))) \<and>
   (processInstructions raw \<noteq> [] \<longrightarrow> inst_current (hd (processInstructions raw))) \<and>
   length (filter inst_current (processInstructions raw)) =
     (if processInstructions raw = [] then 0 else 1) \<and>
   (processInstructions raw = [] \<longleftrightarrow> (\<forall>f \<in> set (split raw). length (trim f) \<le> 10))"
proof -
  define ys where "ys = filter (\<lambda>step. length (trim step) > 10) (split raw)"
  define mk where "mk = (\<lambda>(index :: nat, step).
               \<lparr>inst_id = index + 1, inst_text = trim step,
                inst_completed = False, inst_current = (index = 0)\<rparr>)"
  have p: "processInstructions raw = take 8 (map mk (enumerate 0 ys))"
    by (simp add: processInstructions_def ys_def mk_def)
  have len: "length (processInstructions raw) \<le> 8" by (simp add: p)
  have texts: "10 \<le> length (trim (inst_text s))"
    if mem: "s \<in> set (processInstructions raw)" for s
  proof -
    from mem have "s \<in> set (map mk (enumerate 0 ys))" unfolding p by (rule in_set_takeD)
    then obtain step where "step \<in> set ys" "inst_text s = trim step"
      unfolding mk_def using text_of_step by blast
    then show ?thesis by (simp add: ys_def trim_idem)
  qed
  have cur: "(processInstructions raw \<noteq> [] \<longrightarrow> inst_current (hd (processInstructions raw))) \<and>
      length (filter inst_current (processInstructions raw)) =
        (if processInstructions raw = [] then 0 else 1)"
  proof (cases ys)
    case Nil
    then show ?thesis by (simp add: p)
  next
    case (Cons y ys')
    have rest: "filter inst_current (take 7 (map mk (enumerate (Suc 0) ys'))) = []"
      unfolding mk_def filter_empty_conv using later_not_current in_set_takeD by fast
    have "processInstructions raw = mk (0, y) # take 7 (map mk (enumerate (Suc 0) ys'))"
      by (simp add: p Cons)
    moreover have "inst_current (mk (0, y))" by (simp add: mk_def)
    ultimately show ?thesis using rest by simp
  qed
  have "processInstructions raw = [] \<longleftrightarrow> ys = []" by (cases ys) (simp_all add: p)
  also have "\<dots> \<longleftrightarrow> (\<forall>f \<in> set (split raw). length (trim f) \<le> 10)"
    by (simp add: ys_def filter_empty_conv not_less)
  finally have none: "processInstructions raw = [] \<longleftrightarrow>
      (\<forall>f \<in> set (split raw). length (trim f) \<le> 10)" .
  from len texts cur none show ?thesis by blast
qed

theorem processInstructions_steps_witness:
  "processInstructions (js ''Open the settings page.ok.Press the save button'') \<noteq> [] \<and>
   length (processInstructions (js ''Open the settings page.ok.Press the save button'')) = 2 \<and>
   inst_current (hd (processInstructions (js ''Open the settings page.ok.Press the save button''))) \<and>
   length (filter inst_current
     (processInstructions (js ''Open the settings page.ok.Press the save button''))) = 1 \<and>
   list_all (\<lambda>s. 10 \<le> length (trim (inst_text s)))
     (processInstructions (js ''Open the settings page.ok.Press the save button'')) \<and>
   split (js ''abcdefghij.Click OK'') = [js ''abcdefghij'', js ''Click OK''] \<and>
   list_all (\<lambda>f. length (trim f) \<le> 10) (split (js ''abcdefghij.Click OK'')) \<and>
   processInstructions (js ''abcdefghij.Click OK'') = []"
proof -
  have e: "processInstructions (js ''Open the settings page.ok.Press the save button'') =
    [\<lparr>inst_id = 1, inst_text = js ''Open the settings page'',
      inst_completed = False, inst_current = True\<rparr>,
     \<lparr>inst_id = 2, inst_text = js ''Press the save button'',
      inst_completed = False, inst_current = False\<rparr>]"
    by (simp add: processInstructions_def split_def js_def separator_match_def is_digit_def
        trim_def is_white_space_def)
  have f: "split (js ''abcdefghij.Click OK'') = [js ''abcdefghij'', js ''Click OK'']"
    by (simp add: split_def js_def separator_match_def is_digit_def)
  have g: "list_all (\<lambda>f. length (trim f) \<le> 10) (split (js ''abcdefghij.Click OK''))"
    unfolding f by (simp add: js_def trim_def is_white_space_def)
  from processInstructions_steps [of "js ''abcdefghij.Click OK''"] g
  have n: "processInstructions (js ''abcdefghij.Click OK'') = []"
    by (simp add: list_all_iff)
  from processInstructions_steps [of "js ''Open the settings page.ok.Press the save button''"]
    f g n
  show ?thesis unfolding e by (simp add: list_all_iff)
qed

text \<open>
  The claim as stated fails: the text \<open>Click OK\<close> has no fragment of more than 10 characters,
  so it yields no step, and no step is current.
\<close>

theorem processInstructions_no_current_step:
  "processInstructions (js ''Click OK'') = [] \<and>
   length (filter inst_current (processInstructions (js ''Click OK''))) \<noteq> 1"
  by (simp add: processInstructions_def split_def js_def separator_match_def is_digit_def
      trim_def is_white_space_def)

text \<open>
  C7: the text of the scenario, with line feeds between the three instructions, yields three
  steps in the order of the instructions, numbered 1 to 3, the first one current. The period in
  \<open>gmail.com\<close> is a separator, so the second text is \<open>Go to gmail\<close>.
\<close>

theorem processInstructions_scenario:
  "processInstructions (js ''1. Open Chrome\<newline>2. Go to gmail.com\<newline>3. Click Sign In'') =
     [\<lparr>inst_id = 1, inst_text = js ''Open Chrome'',
       inst_completed = False, inst_current = True\<rparr>,
      \<lparr>inst_id = 2, inst_text = js ''Go to gmail'',
       inst_completed = False, inst_current = False\<rparr>,
      \<lparr>inst_id = 3, inst_text = js ''Click Sign In'',
       inst_completed = False, inst_current = False\<rparr>]"
  by (simp add: processInstructions_def split_def js_def separator_match_def is_digit_def
      trim_def is_white_space_def)


section \<open>Properties of the vision analysis client\<close>

lemma world_inv_initial: "world_inv initial_world"
  by (simp add: world_inv_def initial_world_def)

lemma world_inv_invoke: "world_inv w \<Longrightarrow> world_inv (snd (invoke c w))"
  by (auto simp: world_inv_def invoke_def analyzeScreen_enter_def split: option.splits)

lemma world_inv_settle: "world_inv w \<Longrightarrow> world_inv (snd (settle w))"
  by (cases "in_flight w")
    (auto simp: world_inv_def settle_def analyzeScreen_finally_def split: option.splits)

lemma clear_only_timer: "dom m = {h} \<Longrightarrow> m(h := None) = Map.empty"
proof -
  assume "dom m = {h}"
  then have "dom (m(h := None)) = {}" by simp
  then show ?thesis by (simp only: dom_eq_empty_conv)
qed

lemma world_inv_stop: "world_inv w \<Longrightarrow> world_inv (stopContinuousAnalysis w)"
  by (auto simp: world_inv_def stopContinuousAnalysis_def clearInterval_def clear_only_timer
      split: option.splits)

lemma stop_no_timer:
  "world_inv w \<Longrightarrow>
   dom (timers (stopContinuousAnalysis w)) = {} \<and>
   analysisInterval (service (stopContinuousAnalysis w)) = None"
  by (auto simp: world_inv_def stopContinuousAnalysis_def clearInterval_def clear_only_timer
      split: option.splits)

lemma start_one_timer:
  "world_inv w \<Longrightarrow>
   dom (timers (startContinuousAnalysis ms w)) = {next_handle w} \<and>
   analysisInterval (service (startContinuousAnalysis ms w)) = Some (next_handle w) \<and>
   next_handle (startContinuousAnalysis ms w) = next_handle w + 1"
proof -
  assume inv: "world_inv w"
  have n: "next_handle (stopContinuousAnalysis w) = next_handle w"
    by (simp add: stopContinuousAnalysis_def clearInterval_def split: option.splits)
  from stop_no_timer [OF inv] have "timers (stopContinuousAnalysis w) = Map.empty" by simp
  with n show ?thesis
    by (simp add: startContinuousAnalysis_def setInterval_def)
qed

lemma world_inv_start: "world_inv w \<Longrightarrow> world_inv (startContinuousAnalysis ms w)"
proof -
  assume inv: "world_inv w"
  from world_inv_stop [OF inv] have s: "world_inv (stopContinuousAnalysis w)" .
  have n: "next_handle (stopContinuousAnalysis w) = next_handle w"
    by (simp add: stopContinuousAnalysis_def clearInterval_def split: option.splits)
  from s stop_no_timer [OF inv] show ?thesis
    by (auto simp: world_inv_def startContinuousAnalysis_def setInterval_def split: option.splits)
qed

lemma world_inv_step: "world_inv w \<Longrightarrow> world_inv (step ev w)"
  by (cases ev)
    (simp_all add: world_inv_invoke world_inv_settle world_inv_stop world_inv_start
      interval_callback_def)

lemma reachable_inv: "reachable w \<Longrightarrow> world_inv w"
  by (induction rule: reachable.induct) (simp_all add: world_inv_initial world_inv_step)

lemma remote_failure_simulated:
  "analyzeWithOpenAI_try (reply c) (currentStepIndex c) = Inl e \<Longrightarrow>
   analyzeScreen_body c =
     Inr (simulateAIAnalysis (draws c) (screenImageData c) (instructions c) (currentStepIndex c))"
  by (simp add: analyzeScreen_body_def analyzeScreen_try_def analyzeWithOpenAI_def)

text \<open>
  C2: in every reachable state a call of \<open>analyzeScreen\<close> throws exactly when another call is
  in flight, and then at once: the caller gets the exception, and the state, with its list of
  suspended calls, is as before. A call that was admitted never ends in an exception: whenever
  the remote path fails (request, missing content, parsing, structure), the caller receives
  the result of the simulated path.
\<close>

theorem analyzeScreen_throws_iff_in_flight:
  assumes "reachable w"
  shows "((\<exists>e. fst (invoke c w) = Some (Inl e)) \<longleftrightarrow> in_flight w \<noteq> []) \<and>
         (in_flight w \<noteq> [] \<longrightarrow>
            invoke c w = (Some (Inl (Error (js ''Analysis already in progress''))), w)) \<and>
         (in_flight w = [] \<longrightarrow>
            fst (invoke c w) = None \<and> in_flight (snd (invoke c w)) = [c] \<and>
            fst (settle (snd (invoke c w))) = Some (analyzeScreen_body c)) \<and>
         (\<exists>analysis. analyzeScreen_body c = Inr analysis) \<and>
         (\<forall>e. analyzeWithOpenAI_try (reply c) (currentStepIndex c) = Inl e \<longrightarrow>
            analyzeScreen_body c =
              Inr (simulateAIAnalysis (draws c) (screenImageData c) (instructions c)
                     (currentStepIndex c)))"
proof -
  from assms have "world_inv w" by (rule reachable_inv)
  then have g: "isAnalyzing (service w) \<longleftrightarrow> in_flight w \<noteq> []"
    by (simp add: world_inv_def)
  have a: "(\<exists>e. fst (invoke c w) = Some (Inl e)) \<longleftrightarrow> in_flight w \<noteq> []"
    using g by (simp add: invoke_def analyzeScreen_enter_def)
  have b: "in_flight w \<noteq> [] \<longrightarrow>
      invoke c w = (Some (Inl (Error (js ''Analysis already in progress''))), w)"
    using g by (simp add: invoke_def analyzeScreen_enter_def)
  have d: "in_flight w = [] \<longrightarrow>
      fst (invoke c w) = None \<and> in_flight (snd (invoke c w)) = [c] \<and>
      fst (settle (snd (invoke c w))) = Some (analyzeScreen_body c)"
    using g by (simp add: invoke_def analyzeScreen_enter_def settle_def)
  have e: "\<exists>analysis. analyzeScreen_body c = Inr analysis"
    by (simp add: analyzeScreen_body_def split: sum.splits)
  from a b d e remote_failure_simulated show ?thesis by blast
qed

theorem analyzeScreen_throws_iff_in_flight_witness:
  "reachable (step (Analyze
      \<lparr>screenImageData = js ''data:image/png;base64,AAAA'', instructions = [js ''Open Chrome''],
       currentStepIndex = Fin 0, api_key = Some (js ''sk-live''),
       reply = RequestFails (Error (js ''Network error'')), draws = (\<lambda>k. Random 0)\<rparr>)
      initial_world) \<and>
   in_flight (step (Analyze
      \<lparr>screenImageData = js ''data:image/png;base64,AAAA'', instructions = [js ''Open Chrome''],
       currentStepIndex = Fin 0, api_key = Some (js ''sk-live''),
       reply = RequestFails (Error (js ''Network error'')), draws = (\<lambda>k. Random 0)\<rparr>)
      initial_world) \<noteq> [] \<and>
   fst (invoke
      \<lparr>screenImageData = js ''data:image/png;base64,AAAA'', instructions = [js ''Open Chrome''],
       currentStepIndex = Fin 0, api_key = Some (js ''sk-live''),
       reply = RequestFails (Error (js ''Network error'')), draws = (\<lambda>k. Random 0)\<rparr>
      (step (Analyze
      \<lparr>screenImageData = js ''data:image/png;base64,AAAA'', instructions = [js ''Open Chrome''],
       currentStepIndex = Fin 0, api_key = Some (js ''sk-live''),
       reply = RequestFails (Error (js ''Network error'')), draws = (\<lambda>k. Random 0)\<rparr>)
      initial_world)) = Some (Inl (Error (js ''Analysis already in progress''))) \<and>
   in_flight initial_world = [] \<and>
   analyzeWithOpenAI_try (RequestFails (Error (js ''Network error''))) (Fin 0) =
     Inl (Error (js ''Network error'')) \<and>
   analyzeScreen_body
      \<lparr>screenImageData = js ''data:image/png;base64,AAAA'', instructions = [js ''Open Chrome''],
       currentStepIndex = Fin 0, api_key = Some (js ''sk-live''),
       reply = RequestFails (Error (js ''Network error'')), draws = (\<lambda>k. Random 0)\<rparr> =
     Inr (simulateAIAnalysis (\<lambda>k. Random 0) (js ''data:image/png;base64,AAAA'')
            [js ''Open Chrome''] (Fin 0))"
proof -
  define c where "c =
      \<lparr>screenImageData = js ''data:image/png;base64,AAAA'', instructions = [js ''Open Chrome''],
       currentStepIndex = Fin 0, api_key = Some (js ''sk-live''),
       reply = RequestFails (Error (js ''Network error'')), draws = (\<lambda>k. Random 0)\<rparr>"
  have r: "reachable (step (Analyze c) initial_world)"
    by (rule reachable.step) (rule reachable.initial)
  have f: "in_flight (step (Analyze c) initial_world) = [c]"
    by (simp add: invoke_def analyzeScreen_enter_def initial_world_def)
  have i: "in_flight initial_world = []" by (simp add: initial_world_def)
  have t: "analyzeWithOpenAI_try (reply c) (currentStepIndex c) = Inl (Error (js ''Network error''))"
    by (simp add: analyzeWithOpenAI_try_def c_def)
  from analyzeScreen_throws_iff_in_flight [OF r, of c] f t
  have "fst (invoke c (step (Analyze c) initial_world)) =
          Some (Inl (Error (js ''Analysis already in progress''))) \<and>
        analyzeScreen_body c =
          Inr (simulateAIAnalysis (draws c) (screenImageData c) (instructions c)
                 (currentStepIndex c))"
    by simp
  with r f i t show ?thesis unfolding c_def by simp
qed

text \<open>
  C10: in every reachable state, the \<open>finally\<close> block leaves the guard free, so when the call
  in flight finishes the guard is released, whatever the outcome of its body; and a call that
  the guard rejects leaves the state as it is, so the guard of the call in flight stays set.
  Run without interruption, a call that finds the guard free leaves it free.
\<close>

theorem analyzeScreen_guard_released:
  assumes "reachable w"
  shows "\<not> isAnalysisRunning (analyzeScreen_finally (service w)) \<and>
         (in_flight w \<noteq> [] \<longrightarrow>
            \<not> isAnalysisRunning (service (snd (settle w))) \<and>
            snd (invoke c w) = w \<and> isAnalysisRunning (service (snd (invoke c w)))) \<and>
         (in_flight w = [] \<longrightarrow>
            isAnalysisRunning (service (snd (invoke c w))) \<and>
            \<not> isAnalysisRunning (service (snd (settle (snd (invoke c w))))) \<and>
            \<not> isAnalysisRunning (snd (analyzeScreen (service w) c)))"
proof -
  from assms have "world_inv w" by (rule reachable_inv)
  then have g: "isAnalyzing (service w) \<longleftrightarrow> in_flight w \<noteq> []"
    by (simp add: world_inv_def)
  show ?thesis
  proof (cases "in_flight w")
    case Nil
    with g show ?thesis
      by (simp add: isAnalysisRunning_def invoke_def settle_def analyzeScreen_def
          analyzeScreen_enter_def analyzeScreen_finally_def)
  next
    case (Cons a cs)
    with g show ?thesis
      by (simp add: isAnalysisRunning_def invoke_def settle_def
          analyzeScreen_enter_def analyzeScreen_finally_def)
  qed
qed

theorem analyzeScreen_guard_released_witness:
  "reachable (step (Analyze
      \<lparr>screenImageData = js ''data:image/png;base64,BBBB'', instructions = [js ''Click Sign In''],
       currentStepIndex = Fin 0, api_key = None,
       reply = NoContent, draws = (\<lambda>k. Random 0)\<rparr>) initial_world) \<and>
   in_flight (step (Analyze
      \<lparr>screenImageData = js ''data:image/png;base64,BBBB'', instructions = [js ''Click Sign In''],
       currentStepIndex = Fin 0, api_key = None,
       reply = NoContent, draws = (\<lambda>k. Random 0)\<rparr>) initial_world) \<noteq> [] \<and>
   \<not> isAnalysisRunning (service (snd (settle (step (Analyze
      \<lparr>screenImageData = js ''data:image/png;base64,BBBB'', instructions = [js ''Click Sign In''],
       currentStepIndex = Fin 0, api_key = None,
       reply = NoContent, draws = (\<lambda>k. Random 0)\<rparr>) initial_world)))) \<and>
   isAnalysisRunning (service (snd (invoke
      \<lparr>screenImageData = js ''data:image/png;base64,CCCC'', instructions = [js ''Click Sign In''],
       currentStepIndex = Fin 0, api_key = None,
       reply = NoContent, draws = (\<lambda>k. Random 0)\<rparr>
      (step (Analyze
      \<lparr>screenImageData = js ''data:image/png;base64,BBBB'', instructions = [js ''Click Sign In''],
       currentStepIndex = Fin 0, api_key = None,
       reply = NoContent, draws = (\<lambda>k. Random 0)\<rparr>) initial_world)))) \<and>
   reachable initial_world \<and> in_flight initial_world = [] \<and>
   \<not> isAnalysisRunning (snd (analyzeScreen (service initial_world)
      \<lparr>screenImageData = js ''data:image/png;base64,CCCC'', instructions = [js ''Click Sign In''],
       currentStepIndex = Fin 0, api_key = None,
       reply = NoContent, draws = (\<lambda>k. Random 0)\<rparr>))"
proof -
  define c where "c =
      \<lparr>screenImageData = js ''data:image/png;base64,BBBB'', instructions = [js ''Click Sign In''],
       currentStepIndex = Fin 0, api_key = None,
       reply = NoContent, draws = (\<lambda>k. Random 0)\<rparr>"
  define c' where "c' =
      \<lparr>screenImageData = js ''data:image/png;base64,CCCC'', instructions = [js ''Click Sign In''],
       currentStepIndex = Fin 0, api_key = None,
       reply = NoContent, draws = (\<lambda>k. Random 0)\<rparr>"
  have r: "reachable (step (Analyze c) initial_world)"
    by (rule reachable.step) (rule reachable.initial)
  have f: "in_flight (step (Analyze c) initial_world) = [c]"
    by (simp add: invoke_def analyzeScreen_enter_def initial_world_def)
  have i: "in_flight initial_world = []" by (simp add: initial_world_def)
  from f have ne: "in_flight (step (Analyze c) initial_world) \<noteq> []" by simp
  from analyzeScreen_guard_released [OF r, of c'] ne
  have 1: "\<not> isAnalysisRunning (service (snd (settle (step (Analyze c) initial_world)))) \<and>
        isAnalysisRunning (service (snd (invoke c' (step (Analyze c) initial_world))))"
    by blast
  from analyzeScreen_guard_released [OF reachable.initial, of c'] i
  have 2: "\<not> isAnalysisRunning (snd (analyzeScreen (service initial_world) c'))"
    by blast
  from r f i 1 2 reachable.initial show ?thesis unfolding c_def c'_def by simp
qed


text \<open>
  C5: in every reachable state, after two consecutive calls of \<open>startContinuousAnalysis\<close>,
  with any delays, exactly one timer of the service is active, the one whose handle the
  service holds; the timer that the first call created is not active any more; and after
  \<open>stopContinuousAnalysis\<close> no timer of the service is active.
\<close>

theorem startContinuousAnalysis_twice_one_timer:
  assumes "reachable w"
  shows "card (dom (timers (startContinuousAnalysis ms2 (startContinuousAnalysis ms1 w)))) = 1 \<and>
         (\<exists>h1 h2. analysisInterval (service (startContinuousAnalysis ms1 w)) = Some h1 \<and>
            dom (timers (startContinuousAnalysis ms1 w)) = {h1} \<and>
            analysisInterval (service (startContinuousAnalysis ms2 (startContinuousAnalysis ms1 w)))
              = Some h2 \<and>
            dom (timers (startContinuousAnalysis ms2 (startContinuousAnalysis ms1 w))) = {h2} \<and>
            h1 \<noteq> h2) \<and>
         dom (timers (stopContinuousAnalysis w)) = {} \<and>
         dom (timers (stopContinuousAnalysis
                (startContinuousAnalysis ms2 (startContinuousAnalysis ms1 w)))) = {}"
proof -
  from assms have inv: "world_inv w" by (rule reachable_inv)
  then have inv1: "world_inv (startContinuousAnalysis ms1 w)" by (rule world_inv_start)
  then have inv2: "world_inv (startContinuousAnalysis ms2 (startContinuousAnalysis ms1 w))"
    by (rule world_inv_start)
  note s1 = start_one_timer [OF inv, of ms1]
  note s2 = start_one_timer [OF inv1, of ms2]
  have a: "card (dom (timers (startContinuousAnalysis ms2 (startContinuousAnalysis ms1 w)))) = 1"
    using s2 by simp
  have b: "next_handle w \<noteq> next_handle (startContinuousAnalysis ms1 w)"
    using s1 by simp
  from a s1 s2 b stop_no_timer [OF inv] stop_no_timer [OF inv2] show ?thesis by blast
qed

theorem startContinuousAnalysis_twice_one_timer_witness:
  "reachable initial_world \<and>
   analysisInterval (service (startContinuousAnalysis (Fin 8000) initial_world)) = Some 1 \<and>
   dom (timers (startContinuousAnalysis (Fin 5000)
          (startContinuousAnalysis (Fin 8000) initial_world))) = {2} \<and>
   card (dom (timers (startContinuousAnalysis (Fin 5000)
          (startContinuousAnalysis (Fin 8000) initial_world)))) = 1 \<and>
   dom (timers (stopContinuousAnalysis (startContinuousAnalysis (Fin 5000)
          (startContinuousAnalysis (Fin 8000) initial_world)))) = {}"
proof -
  have e1: "analysisInterval (service (startContinuousAnalysis (Fin 8000) initial_world)) = Some 1"
    by (simp add: startContinuousAnalysis_def stopContinuousAnalysis_def setInterval_def
        initial_world_def)
  have e2: "dom (timers (startContinuousAnalysis (Fin 5000)
          (startContinuousAnalysis (Fin 8000) initial_world))) = {2}"
    by (simp add: startContinuousAnalysis_def stopContinuousAnalysis_def setInterval_def
        clearInterval_def initial_world_def)
  from startContinuousAnalysis_twice_one_timer [OF reachable.initial, of "Fin 5000" "Fin 8000"]
    e1 e2 reachable.initial
  show ?thesis by simp
qed

lemma scenario_index_less: "scenario_index r < 3"
proof -
  have "0 \<le> random_value r \<and> random_value r < 1" using random_value [of r] by simp
  then have "\<lfloor>random_value r * 3\<rfloor> < 3" by (simp add: floor_less_iff)
  then show ?thesis unfolding scenario_index_def by arith
qed

text \<open>
  C6: for every screenshot, instruction list and step index, and whatever the random draws,
  the simulated path returns an analysis whose status is \<open>on_track\<close>, \<open>off_track\<close> or
  \<open>completed\<close>, never \<open>error\<close>, and whose list of visual cues is not empty.
\<close>

theorem simulateAIAnalysis_status_and_cues:
  "status (simulateAIAnalysis rnd img ins idx) \<in>
     {JStr (js ''on_track''), JStr (js ''off_track''), JStr (js ''completed'')} \<and>
   status (simulateAIAnalysis rnd img ins idx) \<noteq> JStr (js ''error'') \<and>
   visualCues (simulateAIAnalysis rnd img ins idx) \<noteq> [] \<and>
   currentStep (simulateAIAnalysis rnd img ins idx) = idx"
proof -
  have "scenario_index (rnd 6) < 3" by (rule scenario_index_less)
  then consider "scenario_index (rnd 6) = 0" | "scenario_index (rnd 6) = 1"
    | "scenario_index (rnd 6) = 2"
    by linarith
  then show ?thesis
  proof cases
    case 1
    then show ?thesis by (simp add: simulateAIAnalysis_def scenarios_def js_def)
  next
    case 2
    then show ?thesis by (simp add: simulateAIAnalysis_def scenarios_def js_def)
  next
    case 3
    then show ?thesis by (simp add: simulateAIAnalysis_def scenarios_def js_def)
  qed
qed


lemma clamp_range_or_NaN:
  "lo \<le> hi \<Longrightarrow>
   Math_max (Fin lo) (Math_min (Fin hi) n) = NaN \<or>
   in_range lo hi (Math_max (Fin lo) (Math_min (Fin hi) n))"
  by (cases n) (auto simp: Math_min_def Math_max_def in_range_def)

lemma convert_cue_range:
  assumes "convert_cue cue = Inr c"
  shows "(cue_x c = NaN \<or> in_range 0 1920 (cue_x c)) \<and>
         (cue_y c = NaN \<or> in_range 0 1080 (cue_y c))"
proof -
  from assms obtain nx ny where
    "cue_x c = Math_max (Fin 0) (Math_min (Fin 1920) nx)"
    "cue_y c = Math_max (Fin 0) (Math_min (Fin 1080) ny)"
    by (auto simp: convert_cue_def and_then_def split: sum.splits)
  with clamp_range_or_NaN [of 0 1920 nx] clamp_range_or_NaN [of 0 1080 ny]
  show ?thesis by simp
qed

lemma map_cues_range:
  "map_cues cues = Inr cs \<Longrightarrow>
   \<forall>c \<in> set cs. (cue_x c = NaN \<or> in_range 0 1920 (cue_x c)) \<and>
                (cue_y c = NaN \<or> in_range 0 1080 (cue_y c))"
proof (induction cues arbitrary: cs)
  case Nil
  then show ?case by simp
next
  case (Cons cue cues)
  then show ?case
    by (auto simp: and_then_def split: sum.splits dest: convert_cue_range)
qed

text \<open>
  What the remote path does guarantee: of an analysis it returns, the confidence is NaN or lies
  in [0,1], and of every cue \<open>x\<close> is NaN or in [0,1920] and \<open>y\<close> is NaN or in [0,1080].
\<close>

lemma analyzeWithOpenAI_clamped_or_NaN:
  assumes "analyzeWithOpenAI rep idx = Inr a"
  shows "(confidence a = NaN \<or> in_range 0 1 (confidence a)) \<and>
         (\<forall>c \<in> set (visualCues a).
            (cue_x c = NaN \<or> in_range 0 1920 (cue_x c)) \<and>
            (cue_y c = NaN \<or> in_range 0 1080 (cue_y c)))"
proof -
  from assms have t: "analyzeWithOpenAI_try rep idx = Inr a"
    by (simp add: analyzeWithOpenAI_def split: sum.splits if_splits)
  then obtain result where r: "rep = Parsed result"
    by (cases rep) (simp_all add: analyzeWithOpenAI_try_def)
  from t r obtain n vc cues where
    a: "confidence a = Math_max (Fin 0) (Math_min (Fin 1) n)" and
    v: "visualCues a = cues" and
    m: "(case vc of JArr elems \<Rightarrow> map_cues elems | _ \<Rightarrow> Inr []) = Inr cues"
    by (auto simp: analyzeWithOpenAI_try_def and_then_def split: sum.splits if_splits)
  have "\<forall>c \<in> set cues. (cue_x c = NaN \<or> in_range 0 1920 (cue_x c)) \<and>
                (cue_y c = NaN \<or> in_range 0 1080 (cue_y c))"
    using m by (cases vc) (auto dest: map_cues_range)
  with a v clamp_range_or_NaN [of 0 1 n] show ?thesis by auto
qed

text \<open>A reply that is not JSON never reaches the extraction of lines 176 to 192.\<close>

lemma analyzeWithOpenAI_unparsable: "analyzeWithOpenAI Unparsable idx = Inl ReferenceError"
  by (simp add: analyzeWithOpenAI_def analyzeWithOpenAI_try_def)

text \<open>
  C3 fails on the code: the reply
  \<open>{"status":"on_track","message":"ok","confidence":"high","visualCues":[{"type":"arrow","x":"left","y":"top"}]}\<close>
  is returned with confidence NaN and a cue at (NaN, NaN), which lie in no interval:
  \<open>Math.min\<close> and \<open>Math.max\<close> pass NaN through.
\<close>

theorem analyzeWithOpenAI_not_a_number:
  "analyzeWithOpenAI
     (Parsed (JObj [(js ''status'', JStr (js ''on_track'')),
                    (js ''message'', JStr (js ''ok'')),
                    (js ''confidence'', JStr (js ''high'')),
                    (js ''visualCues'',
                       JArr [JObj [(js ''type'', JStr (js ''arrow'')),
                                   (js ''x'', JStr (js ''left'')),
                                   (js ''y'', JStr (js ''top''))]])]))
     (Fin 0) =
   Inr \<lparr>currentStep = Fin 0, confidence = NaN, suggestions = [],
        visualCues = [\<lparr>cue_type = JStr (js ''arrow''), cue_x = NaN, cue_y = NaN,
                       cue_width = JUndefined, cue_height = JUndefined,
                       cue_text = JUndefined, cue_color = JStr (js ''#10B981'')\<rparr>],
        status = JStr (js ''on_track''), message = JStr (js ''ok'')\<rparr> \<and>
   \<not> in_range 0 1 NaN \<and> \<not> in_range 0 1920 NaN \<and> \<not> in_range 0 1080 NaN"
  by (simp add: analyzeWithOpenAI_def analyzeWithOpenAI_try_def and_then_def convert_cue_def
      or_else_def ToNumber_def StringToNumber_def unsigned_decimal_def trim_def
      is_white_space_def is_digit_def Math_min_def Math_max_def in_range_def js_def)


section \<open>Properties of the step-tracking components\<close>

lemma mark_current_kept: "instructions_kept xs (mark_current k xs)"
  by (simp add: instructions_kept_def mark_current_def list_all2_conv_all_nth nth_enumerate_eq)

lemma complete_kept:
  "instructions_kept xs
     (map (\<lambda>inst. if inst_id inst = stepId
                      then inst\<lparr>inst_completed := True, inst_current := False\<rparr>
                      else inst) xs)"
  by (simp add: instructions_kept_def list_all2_conv_all_nth)

lemma instructions_kept_refl: "instructions_kept xs xs"
  by (simp add: instructions_kept_def list_all2_conv_all_nth)

lemma panel_step_kept:
  "instructions_kept (processedInstructions s) (processedInstructions (panel_step r ev s))"
  by (cases ev)
    (simp_all add: panel_handleStepComplete_def panel_handleNextStep_def
      panel_handlePreviousStep_def panel_auto_advance_def panel_ai_complete_def Let_def
      mark_current_kept complete_kept instructions_kept_refl)

lemma steps_kept_refl: "steps_kept xs xs"
  by (simp add: steps_kept_def list_all2_conv_all_nth)

lemma steps_kept_update: "steps_kept xs (xs[i := (xs ! i)\<lparr>step_completed := True\<rparr>])"
  by (cases "i < length xs")
    (auto simp: steps_kept_def list_all2_conv_all_nth nth_list_update list_update_beyond)

lemma viewer_step_kept: "steps_kept (task_steps s) (task_steps (viewer_step r ev s))"
  by (cases ev)
    (simp_all add: viewer_handleStepComplete_def viewer_handleNextStep_def
      viewer_handlePreviousStep_def viewer_auto_advance_def Let_def
      steps_kept_refl steps_kept_update)

lemma guide_step_kept:
  "ev \<noteq> GuideRestart \<Longrightarrow>
   set (completedSteps s) \<subseteq> set (completedSteps (guide_step steps r ev s))"
  by (cases ev)
    (auto simp: handlePrevious_def handleNext_def handleStepClick_def handleComplete_def
       handlePlayPause_def handleMinimize_def handleDone_def handleDragStop_def
       auto_play_tick_def Let_def)

lemma mount_stored_keeps:
  "localStorage STATUS_KEY \<noteq> Some (js ''done'') \<Longrightarrow> localStorage STORAGE_KEY = Some saved \<Longrightarrow>
   saved \<noteq> [] \<Longrightarrow> JSON_parse saved = Some s \<Longrightarrow>
   completedSteps (initial_guideState localStorage JSON_parse autoStart pos) = completedSteps s"
  by (simp add: initial_guideState_def Let_def)

lemma mount_fresh_empty:
  "localStorage STATUS_KEY = Some (js ''done'') \<or> localStorage STORAGE_KEY = None \<Longrightarrow>
   completedSteps (initial_guideState localStorage JSON_parse autoStart pos) = []"
  by (auto simp: initial_guideState_def Let_def)

text \<open>
  C4, as amended: the step operations (complete, navigate, select, advance automatically)
  never remove a completed mark. In the floating guide every handler other than restart keeps
  each completed id, and so does a mount that reads the stored state; in the task viewer and
  in the orchestrator every step operation keeps each step, its id and its mark if it was
  completed. The operations that reset progress do remove marks: the restart of the floating
  guide, and its mount when the dismissal key is set (as after Done) or no state is stored,
  give an empty \<open>completedSteps\<close>; the orchestrator's return to the input phase empties the
  list of steps, and a new task replaces it.
\<close>

theorem step_completion_monotone:
  "(ev \<noteq> GuideRestart \<longrightarrow>
      set (completedSteps s) \<subseteq> set (completedSteps (guide_step steps r ev s))) \<and>
   completedSteps (guide_step steps r GuideRestart s) = [] \<and>
   (stored STATUS_KEY \<noteq> Some (js ''done'') \<and> stored STORAGE_KEY = Some saved \<and> saved \<noteq> [] \<and>
    JSON_parse saved = Some s \<longrightarrow>
      completedSteps (initial_guideState stored JSON_parse autoStart pos) = completedSteps s) \<and>
   (cleared STATUS_KEY = Some (js ''done'') \<or> cleared STORAGE_KEY = None \<longrightarrow>
      completedSteps (initial_guideState cleared JSON_parse autoStart pos) = []) \<and>
   completedSteps (initial_guideState (handleDone_storage stored) JSON_parse autoStart pos) = [] \<and>
   steps_kept (task_steps v) (task_steps (viewer_step rv vev v)) \<and>
   instructions_kept (processedInstructions p) (processedInstructions (panel_step rp pev p)) \<and>
   processedInstructions (panel_handleBackToInput p) = [] \<and>
   processedInstructions (panel_handleInstructionsProcessed instrs p) = instrs"
proof -
  have d: "handleDone_storage stored STATUS_KEY = Some (js ''done'')"
    by (simp add: handleDone_storage_def STORAGE_KEY_def STATUS_KEY_def js_def)
  have "completedSteps
      (initial_guideState (handleDone_storage stored) JSON_parse autoStart pos) = []"
    using d by (simp add: mount_fresh_empty)
  with guide_step_kept [of ev s steps r] viewer_step_kept [of v rv vev]
    panel_step_kept [of p rp pev]
    mount_stored_keeps [of stored saved JSON_parse s autoStart pos]
    mount_fresh_empty [of cleared JSON_parse autoStart pos]
  show ?thesis
    by (simp add: handleRestart_def panel_handleBackToInput_def
        panel_handleInstructionsProcessed_def)
qed

theorem step_completion_monotone_witness:
  "GuideNext \<noteq> GuideRestart \<and>
   set (completedSteps
     \<lparr>isVisible = True, guide_currentStep = 0, isMinimized = False, isPlaying = False,
      position = (Fin 20, Fin 100), completedSteps = [Fin 1], guide_status = Active\<rparr>) \<subseteq>
   set (completedSteps (guide_step defaultSteps
     \<lparr>isVisible = True, guide_currentStep = 0, isMinimized = False, isPlaying = False,
      position = (Fin 20, Fin 100), completedSteps = [Fin 1], guide_status = Active\<rparr>
     GuideNext
     \<lparr>isVisible = True, guide_currentStep = 0, isMinimized = False, isPlaying = False,
      position = (Fin 20, Fin 100), completedSteps = [Fin 1], guide_status = Active\<rparr>)) \<and>
   [STORAGE_KEY \<mapsto> js ''saved state''] STATUS_KEY \<noteq> Some (js ''done'') \<and>
   [STORAGE_KEY \<mapsto> js ''saved state''] STORAGE_KEY = Some (js ''saved state'') \<and>
   js ''saved state'' \<noteq> [] \<and>
   completedSteps (initial_guideState [STORAGE_KEY \<mapsto> js ''saved state'']
     (\<lambda>saved. Some
        \<lparr>isVisible = True, guide_currentStep = 0, isMinimized = False, isPlaying = False,
         position = (Fin 20, Fin 100), completedSteps = [Fin 1], guide_status = Active\<rparr>)
     True (Fin 20, Fin 100)) = [Fin 1] \<and>
   [STATUS_KEY \<mapsto> js ''done''] STATUS_KEY = Some (js ''done'') \<and>
   completedSteps (initial_guideState [STATUS_KEY \<mapsto> js ''done'']
     (\<lambda>saved. Some
        \<lparr>isVisible = True, guide_currentStep = 0, isMinimized = False, isPlaying = False,
         position = (Fin 20, Fin 100), completedSteps = [Fin 1], guide_status = Active\<rparr>)
     True (Fin 20, Fin 100)) = [] \<and>
   task_steps (viewer_step
        \<lparr>task_steps =
           [\<lparr>step_id = 1, step_title = js ''Step 1'', step_description = js ''Open Chrome'',
             step_completed = True, step_kind = action\<rparr>,
            \<lparr>step_id = 2, step_title = js ''Step 2'', step_description = js ''Go to gmail'',
             step_completed = False, step_kind = action\<rparr>],
         viewer_currentStep = 1\<rparr>
        ViewerStepComplete
        \<lparr>task_steps =
           [\<lparr>step_id = 1, step_title = js ''Step 1'', step_description = js ''Open Chrome'',
             step_completed = True, step_kind = action\<rparr>,
            \<lparr>step_id = 2, step_title = js ''Step 2'', step_description = js ''Go to gmail'',
             step_completed = False, step_kind = action\<rparr>],
         viewer_currentStep = 1\<rparr>) =
     [\<lparr>step_id = 1, step_title = js ''Step 1'', step_description = js ''Open Chrome'',
       step_completed = True, step_kind = action\<rparr>,
      \<lparr>step_id = 2, step_title = js ''Step 2'', step_description = js ''Go to gmail'',
       step_completed = True, step_kind = action\<rparr>] \<and>
   steps_kept
     [\<lparr>step_id = 1, step_title = js ''Step 1'', step_description = js ''Open Chrome'',
       step_completed = True, step_kind = action\<rparr>,
      \<lparr>step_id = 2, step_title = js ''Step 2'', step_description = js ''Go to gmail'',
       step_completed = False, step_kind = action\<rparr>]
     [\<lparr>step_id = 1, step_title = js ''Step 1'', step_description = js ''Open Chrome'',
       step_completed = True, step_kind = action\<rparr>,
      \<lparr>step_id = 2, step_title = js ''Step 2'', step_description = js ''Go to gmail'',
       step_completed = True, step_kind = action\<rparr>] \<and>
   processedInstructions (panel_step
        \<lparr>processedInstructions =
           [\<lparr>inst_id = 1, inst_text = js ''Open Chrome'', inst_completed = True,
             inst_current = False\<rparr>,
            \<lparr>inst_id = 2, inst_text = js ''Go to gmail'', inst_completed = False,
             inst_current = False\<rparr>],
         panel_currentStep = 0\<rparr>
        PanelNextStep
        \<lparr>processedInstructions =
           [\<lparr>inst_id = 1, inst_text = js ''Open Chrome'', inst_completed = True,
             inst_current = False\<rparr>,
            \<lparr>inst_id = 2, inst_text = js ''Go to gmail'', inst_completed = False,
             inst_current = False\<rparr>],
         panel_currentStep = 0\<rparr>) =
     [\<lparr>inst_id = 1, inst_text = js ''Open Chrome'', inst_completed = True,
       inst_current = False\<rparr>,
      \<lparr>inst_id = 2, inst_text = js ''Go to gmail'', inst_completed = False,
       inst_current = True\<rparr>] \<and>
   instructions_kept
     [\<lparr>inst_id = 1, inst_text = js ''Open Chrome'', inst_completed = True,
       inst_current = False\<rparr>,
      \<lparr>inst_id = 2, inst_text = js ''Go to gmail'', inst_completed = False,
       inst_current = False\<rparr>]
     [\<lparr>inst_id = 1, inst_text = js ''Open Chrome'', inst_completed = True,
       inst_current = False\<rparr>,
      \<lparr>inst_id = 2, inst_text = js ''Go to gmail'', inst_completed = False,
       inst_current = True\<rparr>]"
proof -
  define g where "g =
     \<lparr>isVisible = True, guide_currentStep = 0, isMinimized = False, isPlaying = False,
      position = (Fin 20, Fin 100), completedSteps = [Fin 1], guide_status = Active\<rparr>"
  define v where "v =
     \<lparr>task_steps =
           [\<lparr>step_id = 1, step_title = js ''Step 1'', step_description = js ''Open Chrome'',
             step_completed = True, step_kind = action\<rparr>,
            \<lparr>step_id = 2, step_title = js ''Step 2'', step_description = js ''Go to gmail'',
             step_completed = False, step_kind = action\<rparr>],
         viewer_currentStep = 1\<rparr>"
  define p where "p =
     \<lparr>processedInstructions =
           [\<lparr>inst_id = 1, inst_text = js ''Open Chrome'', inst_completed = True,
             inst_current = False\<rparr>,
            \<lparr>inst_id = 2, inst_text = js ''Go to gmail'', inst_completed = False,
             inst_current = False\<rparr>],
         panel_currentStep = 0\<rparr>"
  have k: "STORAGE_KEY \<noteq> STATUS_KEY" by (simp add: STORAGE_KEY_def STATUS_KEY_def js_def)
  have n: "js ''saved state'' \<noteq> []" by (simp add: js_def)
  have ve: "task_steps (viewer_step v ViewerStepComplete v) =
     [\<lparr>step_id = 1, step_title = js ''Step 1'', step_description = js ''Open Chrome'',
       step_completed = True, step_kind = action\<rparr>,
      \<lparr>step_id = 2, step_title = js ''Step 2'', step_description = js ''Go to gmail'',
       step_completed = True, step_kind = action\<rparr>]"
    by (simp add: v_def viewer_handleStepComplete_def Let_def)
  have pe: "processedInstructions (panel_step p PanelNextStep p) =
     [\<lparr>inst_id = 1, inst_text = js ''Open Chrome'', inst_completed = True,
       inst_current = False\<rparr>,
      \<lparr>inst_id = 2, inst_text = js ''Go to gmail'', inst_completed = False,
       inst_current = True\<rparr>]"
    by (simp add: p_def panel_handleNextStep_def mark_current_def Let_def)
  from step_completion_monotone
    [of GuideNext g defaultSteps g "[STORAGE_KEY \<mapsto> js ''saved state'']" "js ''saved state''"
      "\<lambda>saved. Some g" True "(Fin 20, Fin 100)" "[STATUS_KEY \<mapsto> js ''done'']"
      v v ViewerStepComplete p p PanelNextStep "[]"]
    k n
  have "set (completedSteps g) \<subseteq> set (completedSteps (guide_step defaultSteps g GuideNext g)) \<and>
    completedSteps (initial_guideState [STORAGE_KEY \<mapsto> js ''saved state'']
       (\<lambda>saved. Some g) True (Fin 20, Fin 100)) = completedSteps g \<and>
    completedSteps (initial_guideState [STATUS_KEY \<mapsto> js ''done'']
       (\<lambda>saved. Some g) True (Fin 20, Fin 100)) = [] \<and>
    steps_kept (task_steps v) (task_steps (viewer_step v ViewerStepComplete v)) \<and>
    instructions_kept (processedInstructions p)
      (processedInstructions (panel_step p PanelNextStep p))"
    by simp
  with k n ve pe show ?thesis unfolding g_def v_def p_def by simp
qed

text \<open>
  The claim as stated fails: with the default steps and nothing stored, completing the first
  step marks id 1, and the restart that follows removes the mark.
\<close>

theorem handleRestart_clears_completed:
  "completedSteps
     (guide_step defaultSteps
        (initial_guideState Map.empty (\<lambda>saved. None) True (Fin 20, Fin 100))
        GuideComplete
        (initial_guideState Map.empty (\<lambda>saved. None) True (Fin 20, Fin 100))) = [Fin 1] \<and>
   completedSteps
     (guide_step defaultSteps
        (guide_step defaultSteps
           (initial_guideState Map.empty (\<lambda>saved. None) True (Fin 20, Fin 100))
           GuideComplete
           (initial_guideState Map.empty (\<lambda>saved. None) True (Fin 20, Fin 100)))
        GuideRestart
        (guide_step defaultSteps
           (initial_guideState Map.empty (\<lambda>saved. None) True (Fin 20, Fin 100))
           GuideComplete
           (initial_guideState Map.empty (\<lambda>saved. None) True (Fin 20, Fin 100)))) = []"
  by (simp add: initial_guideState_def handleComplete_def handleRestart_def defaultSteps_def
      Let_def)

section \<open>Properties of the floating guide popup\<close>

text \<open>
  C8: if the dismissal key holds \<open>done\<close> when the popup is initialised, the initial state is
  not visible and dismissed, and the component renders nothing, whatever is stored under the
  key of the step state and however it parses.
\<close>

theorem dismissed_guide_renders_nothing:
  assumes "localStorage STATUS_KEY = Some (js ''done'')"
  shows "\<not> isVisible (initial_guideState localStorage JSON_parse autoStart pos) \<and>
         guide_status (initial_guideState localStorage JSON_parse autoStart pos) = Dismissed \<and>
         \<not> renders_popup (initial_guideState localStorage JSON_parse autoStart pos) portal"
  using assms by (simp add: initial_guideState_def renders_popup_def Let_def)

theorem dismissed_guide_renders_nothing_witness:
  "[STORAGE_KEY \<mapsto> js ''saved state'', STATUS_KEY \<mapsto> js ''done''] STATUS_KEY =
     Some (js ''done'') \<and>
   [STORAGE_KEY \<mapsto> js ''saved state'', STATUS_KEY \<mapsto> js ''done''] STORAGE_KEY =
     Some (js ''saved state'') \<and>
   \<not> renders_popup
      (initial_guideState [STORAGE_KEY \<mapsto> js ''saved state'', STATUS_KEY \<mapsto> js ''done'']
         (\<lambda>saved. Some \<lparr>isVisible = True, guide_currentStep = 3, isMinimized = False,
                         isPlaying = True, position = (Fin 20, Fin 100),
                         completedSteps = [Fin 1, Fin 2], guide_status = Active\<rparr>)
         True (Fin 20, Fin 100))
      True"
proof -
  have k: "STORAGE_KEY \<noteq> STATUS_KEY" by (simp add: STORAGE_KEY_def STATUS_KEY_def js_def)
  have d: "[STORAGE_KEY \<mapsto> js ''saved state'', STATUS_KEY \<mapsto> js ''done''] STATUS_KEY =
     Some (js ''done'')" by simp
  from dismissed_guide_renders_nothing
         [of "[STORAGE_KEY \<mapsto> js ''saved state'', STATUS_KEY \<mapsto> js ''done'']", OF d] k
  show ?thesis by simp
qed

text \<open>After \<open>handleDone\<close> has written to the storage, the next mount is dismissed.\<close>

lemma handleDone_then_dismissed:
  "guide_status
     (initial_guideState (handleDone_storage localStorage) JSON_parse autoStart pos) = Dismissed"
  by (simp add: initial_guideState_def handleDone_storage_def STORAGE_KEY_def STATUS_KEY_def
      js_def Let_def)

lemma guide_step_distinct:
  "distinct (completedSteps s) \<Longrightarrow> distinct (completedSteps (guide_step steps r ev s))"
  by (cases ev)
    (auto simp: handlePrevious_def handleNext_def handleStepClick_def handleComplete_def
       handlePlayPause_def handleMinimize_def handleDone_def handleDragStop_def handleRestart_def
       auto_play_tick_def Let_def)

lemma guide_initial_distinct:
  "localStorage STORAGE_KEY = None \<Longrightarrow>
   distinct (completedSteps (initial_guideState localStorage JSON_parse autoStart pos))"
  by (simp add: initial_guideState_def Let_def)

lemma guide_mount_distinct:
  "distinct (completedSteps s) \<Longrightarrow> localStorage STORAGE_KEY = Some saved \<Longrightarrow>
   JSON_parse saved = Some s \<Longrightarrow>
   distinct (completedSteps (initial_guideState localStorage JSON_parse autoStart pos))"
  by (simp add: initial_guideState_def Let_def)

lemma guide_reachable_distinct: "guide_reachable steps s \<Longrightarrow> distinct (completedSteps s)"
  by (induction rule: guide_reachable.induct)
    (simp_all add: guide_initial_distinct guide_step_distinct guide_mount_distinct)

text \<open>
  C9: completing a step whose id is already in \<open>completedSteps\<close> leaves the state unchanged,
  completing twice is completing once, and in every reachable state of the popup the entries
  of \<open>completedSteps\<close> are pairwise distinct.
\<close>

theorem handleComplete_idempotent:
  "(0 \<le> guide_currentStep r \<and> guide_currentStep r < int (length steps) \<and>
    guide_step_id (steps ! nat (guide_currentStep r)) \<in> set (completedSteps s) \<longrightarrow>
      handleComplete steps r s = Inr s) \<and>
   guide_step steps r GuideComplete (guide_step steps r GuideComplete s) =
     guide_step steps r GuideComplete s \<and>
   (guide_reachable steps s \<longrightarrow> distinct (completedSteps s))"
  using guide_reachable_distinct [of steps s]
  by (auto simp: handleComplete_def Let_def)


theorem handleComplete_idempotent_witness:
  "guide_reachable defaultSteps
     \<lparr>isVisible = True, guide_currentStep = 0, isMinimized = False, isPlaying = False,
      position = (Fin 20, Fin 100), completedSteps = [Fin 1], guide_status = Active\<rparr> \<and>
   guide_step_id (defaultSteps ! nat 0) \<in> set [Fin 1] \<and>
   handleComplete defaultSteps
     \<lparr>isVisible = True, guide_currentStep = 0, isMinimized = False, isPlaying = False,
      position = (Fin 20, Fin 100), completedSteps = [Fin 1], guide_status = Active\<rparr>
     \<lparr>isVisible = True, guide_currentStep = 0, isMinimized = False, isPlaying = False,
      position = (Fin 20, Fin 100), completedSteps = [Fin 1], guide_status = Active\<rparr> =
   Inr \<lparr>isVisible = True, guide_currentStep = 0, isMinimized = False, isPlaying = False,
        position = (Fin 20, Fin 100), completedSteps = [Fin 1], guide_status = Active\<rparr> \<and>
   distinct (completedSteps
     \<lparr>isVisible = True, guide_currentStep = 0, isMinimized = False, isPlaying = False,
      position = (Fin 20, Fin 100), completedSteps = [Fin 1], guide_status = Active\<rparr>)"
proof -
  define s0 where "s0 = initial_guideState Map.empty (\<lambda>saved. None) True (Fin 20, Fin 100)"
  define s1 where "s1 =
     \<lparr>isVisible = True, guide_currentStep = 0, isMinimized = False, isPlaying = False,
      position = (Fin 20, Fin 100), completedSteps = [Fin 1], guide_status = Active\<rparr>"
  have "guide_reachable defaultSteps s0"
    unfolding s0_def by (rule guide_reachable.guide_initial) simp
  then have "guide_reachable defaultSteps (guide_step defaultSteps s0 GuideComplete s0)"
    by (rule guide_reachable.guide_next)
  moreover have "guide_step defaultSteps s0 GuideComplete s0 = s1"
    by (simp add: s0_def s1_def initial_guideState_def handleComplete_def defaultSteps_def
        Let_def)
  ultimately have r: "guide_reachable defaultSteps s1" by simp
  have m: "guide_step_id (defaultSteps ! nat (guide_currentStep s1)) \<in> set (completedSteps s1)"
    by (simp add: s1_def defaultSteps_def)
  have b: "0 \<le> guide_currentStep s1 \<and> guide_currentStep s1 < int (length defaultSteps)"
    by (simp add: s1_def defaultSteps_def)
  from handleComplete_idempotent [of s1 defaultSteps s1] r m b
  have "handleComplete defaultSteps s1 s1 = Inr s1 \<and> distinct (completedSteps s1)"
    by blast
  with r m show ?thesis unfolding s1_def by simp
qed

end
